theory Spec2Isabelle
  imports Complex_Main "HOL-Library.Sublist"
begin

section \<open>Values shared by the middleware and the routes\<close>

text \<open>
  The backend answers every request with a status code and a JSON body. JSON values are
  modelled as a datatype; an object is the list of its keys in the order the source writes
  them. Numbers are exact rationals (the source's numbers are status codes, counts and
  page sizes).
\<close>

datatype json =
    JNull
  | JBool bool
  | JNum rat
  | JStr string
  | JArr "json list"
  | JObj "(string \<times> json) list"

record response =
  res_status :: int
  res_body :: json

text \<open>\<open>jfield b k\<close> reads key \<open>k\<close> of the JSON object \<open>b\<close>; \<open>None\<close> is an absent key.\<close>

fun jfield :: "json \<Rightarrow> string \<Rightarrow> json option" where
  "jfield (JObj kvs) k = map_of kvs k"
| "jfield _ k = None"

section \<open>Error normalizer (middleware/errorHandler.ts)\<close>

text \<open>
  The handler receives a JavaScript error object and tells its class by \<open>instanceof\<close>.
  The class is a constructor here, carrying the properties that only that class has:
  a \<open>CustomError\<close> always has the \<open>statusCode\<close> and \<open>code\<close> its constructor sets; a known
  Prisma request error has its \<open>code\<close> and the optional \<open>meta.target\<close>; any other error
  object records whether it is a \<open>SyntaxError\<close>, whether it has a \<open>body\<close> property, and
  its optional \<open>statusCode\<close> and \<open>code\<close> properties. Every error object has \<open>name\<close>,
  \<open>message\<close> and \<open>stack\<close>.
\<close>

datatype error_class =
    CustomError int string
  | PrismaClientKnownRequestError string "string list option"
  | PrismaClientValidationError
  | PrismaClientInitializationError
  | OtherError bool bool "int option" "string option"

record js_error =
  err_class :: error_class
  err_name :: string
  err_message :: string
  err_stack :: string

text \<open>\<open>new CustomError(message, statusCode, code)\<close>.\<close>

definition mkCustomError :: "string \<Rightarrow> int \<Rightarrow> string \<Rightarrow> js_error" where
  "mkCustomError msg sc c =
     \<lparr>err_class = CustomError sc c, err_name = ''CustomError'', err_message = msg,
      err_stack = ''CustomError: '' @ msg\<rparr>"

text \<open>
  \<open>target ? target[0] : 'field'\<close>: an absent target gives the word \<open>field\<close>, an empty
  array gives \<open>undefined\<close> (\<open>None\<close>).
\<close>

definition target_field :: "string list option \<Rightarrow> string option" where
  "target_field target =
     (case target of None \<Rightarrow> Some ''field'' | Some [] \<Rightarrow> None | Some (f # _) \<Rightarrow> Some f)"

text \<open>A template literal prints \<open>undefined\<close> for an undefined value.\<close>

definition template_str :: "string option \<Rightarrow> string" where
  "template_str v = (case v of None \<Rightarrow> ''undefined'' | Some s \<Rightarrow> s)"

text \<open>
  The \<open>if\<close>/\<open>else if\<close> chain of \<open>errorHandler\<close>, in the source's order. It yields the
  status code, the message, the code string and the optional details object, starting
  from \<open>500\<close>, \<open>Internal server error\<close>, \<open>INTERNAL_ERROR\<close> and no details.
\<close>

definition resolve_error :: "js_error \<Rightarrow> int \<times> string \<times> string \<times> json option" where
  "resolve_error e =
     (case err_class e of
        CustomError sc c \<Rightarrow> (sc, err_message e, c, None)
      | PrismaClientKnownRequestError pc target \<Rightarrow>
          (if pc = ''P2002'' then
             (let field = target_field target in
              (409, ''A record with this '' @ template_str field @ '' already exists'',
               ''DUPLICATE_ENTRY'',
               Some (JObj ((case field of None \<Rightarrow> [] | Some f \<Rightarrow> [(''field'', JStr f)])
                           @ [(''constraint'', JStr ''unique'')]))))
           else if pc = ''P2014'' then
             (400, ''Invalid relation: required field is missing'', ''INVALID_RELATION'', None)
           else if pc = ''P2003'' then
             (400, ''Invalid reference: related record does not exist'',
              ''FOREIGN_KEY_VIOLATION'', None)
           else if pc = ''P2025'' then (404, ''Record not found'', ''NOT_FOUND'', None)
           else if pc = ''P2021'' then
             (500, ''Database configuration error'', ''DATABASE_ERROR'', None)
           else if pc = ''P2022'' then (500, ''Database schema error'', ''DATABASE_ERROR'', None)
           else (500, ''Database operation failed'', ''DATABASE_ERROR'',
                 Some (JObj [(''prismaCode'', JStr pc)])))
      | PrismaClientValidationError \<Rightarrow>
          (400, ''Invalid data provided'', ''VALIDATION_ERROR'', None)
      | PrismaClientInitializationError \<Rightarrow>
          (503, ''Database connection failed'', ''DATABASE_CONNECTION_ERROR'', None)
      | OtherError is_syntax has_body sc c \<Rightarrow>
          (if is_syntax \<and> has_body then (400, ''Invalid JSON format'', ''INVALID_JSON'', None)
           else if err_name e = ''JsonWebTokenError'' then
             (401, ''Invalid authentication token'', ''INVALID_TOKEN'', None)
           else if err_name e = ''TokenExpiredError'' then
             (401, ''Authentication token has expired'', ''TOKEN_EXPIRED'', None)
           else if err_name e = ''MulterError'' then
             (400,
              (if c = Some ''LIMIT_FILE_SIZE'' then ''File size too large''
               else if c = Some ''LIMIT_FILE_COUNT'' then ''Too many files uploaded''
               else if c = Some ''LIMIT_UNEXPECTED_FILE'' then ''Unexpected file field''
               else ''File upload error''),
              ''UPLOAD_ERROR'', None)
           else (case (if sc = Some 0 then None else sc) of
                   Some n \<Rightarrow> (n, err_message e, ''INTERNAL_ERROR'', None)
                 | None \<Rightarrow>
                     (if err_message e \<noteq> [] then (500, err_message e, ''INTERNAL_ERROR'', None)
                      else (500, ''Internal server error'', ''INTERNAL_ERROR'', None)))))"

text \<open>
  What \<open>errorHandler\<close> computes for an error object: the production override, then the
  status code and the JSON object that it hands to \<open>res.status(statusCode).json(...)\<close>. The
  first argument is the value of \<open>process.env.NODE_ENV\<close>. The spread
  \<open>...(details && { details })\<close> adds the key only when details are defined; the
  development spread adds \<open>stack\<close> and \<open>originalError\<close>. Whether a response goes out is
  \<open>errorHandler_middleware\<close> below.
\<close>

definition errorHandler :: "string option \<Rightarrow> js_error \<Rightarrow> response" where
  "errorHandler node_env e =
     (case resolve_error e of (statusCode, message0, code, details0) \<Rightarrow>
        (let hide = (node_env = Some ''production'' \<and> statusCode \<ge> 500);
             message = (if hide then ''Something went wrong. Please try again later.''
                        else message0);
             details = (if hide then None else details0)
         in \<lparr>res_status = statusCode,
             res_body = JObj ([(''error'', JStr message), (''code'', JStr code),
                               (''statusCode'', JNum (of_int statusCode))]
                              @ (case details of None \<Rightarrow> [] | Some d \<Rightarrow> [(''details'', d)])
                              @ (if node_env = Some ''development''
                                 then [(''stack'', JStr (err_stack e)),
                                       (''originalError'', JStr (err_message e))]
                                 else []))\<rparr>))"

text \<open>
  An error that none of the named categories matches: a plain error object that is not a
  body-parsing \<open>SyntaxError\<close>, whose name is none of the three the handler knows, and whose
  \<open>statusCode\<close> property is absent or falsy.
\<close>

definition unrecognized :: "js_error \<Rightarrow> bool" where
  "unrecognized e =
     (case err_class e of
        OtherError is_syntax has_body sc c \<Rightarrow>
          \<not> (is_syntax \<and> has_body)
          \<and> err_name e \<notin> {''JsonWebTokenError'', ''TokenExpiredError'', ''MulterError''}
          \<and> (sc = None \<or> sc = Some 0)
      | _ \<Rightarrow> False)"

text \<open>
  The middleware as the framework calls it. The value passed to \<open>next(err)\<close> is whatever
  was thrown: an error object or a primitive (a thrown string, number or boolean). For a
  primitive every \<open>instanceof\<close> and \<open>name\<close> test fails and \<open>'statusCode' in error\<close>
  throws a \<open>TypeError\<close>. For an error object the handler ends in
  \<open>res.status(statusCode).json(body)\<close>, which throws a \<open>RangeError\<close> when the status code is
  not within 100..999; a status that has no body (1xx, 204, 205, 304) goes out without the
  JSON object. When the handler throws, it has sent nothing and the error goes on to the
  framework's own final handler.
\<close>

datatype primitive = PString string | PNumber rat | PBoolean bool

datatype thrown = ErrorObject js_error | Primitive primitive

definition in_operator_error :: js_error where
  "in_operator_error =
     \<lparr>err_class = OtherError False False None None, err_name = ''TypeError'',
      err_message = ''Cannot use the in operator to search for statusCode in a primitive'',
      err_stack = ''TypeError: Cannot use the in operator to search for statusCode''\<rparr>"

definition invalid_status_code :: js_error where
  "invalid_status_code =
     \<lparr>err_class = OtherError False False None (Some ''ERR_HTTP_INVALID_STATUS_CODE''),
      err_name = ''RangeError'', err_message = ''Invalid status code'',
      err_stack = ''RangeError: Invalid status code''\<rparr>"

record sent =
  sent_status :: int
  sent_body :: "json option"

definition res_status_json :: "response \<Rightarrow> js_error + sent" where
  "res_status_json r =
     (if res_status r < 100 \<or> 999 < res_status r then Inl invalid_status_code
      else if res_status r < 200 \<or> res_status r \<in> {204, 205, 304} then
        Inr \<lparr>sent_status = res_status r, sent_body = None\<rparr>
      else Inr \<lparr>sent_status = res_status r, sent_body = Some (res_body r)\<rparr>)"

definition errorHandler_middleware :: "string option \<Rightarrow> thrown \<Rightarrow> js_error + sent" where
  "errorHandler_middleware node_env err =
     (case err of
        Primitive v \<Rightarrow> Inl in_operator_error
      | ErrorObject e \<Rightarrow> res_status_json (errorHandler node_env e))"

section \<open>Data model\<close>

text \<open>
  The relational records the routes read and write, with the fields the source sets or
  reads. Identifiers are generated by the ORM and unique in their table; they are natural
  numbers here, and a new one is larger than every identifier already in the table.
  Timestamps are natural numbers. Status and role values are the strings the source
  compares with.
\<close>

record user =
  user_id :: nat
  user_email :: string
  user_password :: string
  user_firstName :: string
  user_lastName :: string
  user_phone :: "string option"
  user_role :: string
  user_status :: string

record profile =
  dateOfBirth :: "nat option"
  gender :: "string option"
  nationality :: "string option"
  address :: "string option"
  city :: "string option"
  state :: "string option"
  postalCode :: "string option"
  country :: "string option"
  emergencyContactName :: "string option"
  emergencyContactPhone :: "string option"
  emergencyContactEmail :: "string option"
  previousEducation :: "string option"
  workExperience :: "string option"

record student =
  student_id :: nat
  student_userId :: nat
  student_profile :: profile

record course =
  course_id :: nat
  course_title :: string
  course_category :: string
  course_price :: rat
  course_currency :: string

record courseModule =
  module_id :: nat
  module_courseId :: nat

record lesson =
  lesson_id :: nat
  lesson_moduleId :: nat

record registration =
  reg_id :: nat
  reg_studentId :: nat
  reg_courseId :: nat
  reg_message :: "string option"
  reg_status :: string
  reg_reviewedBy :: "nat option"
  reg_reviewedAt :: "nat option"
  reg_rejectionReason :: "string option"
  reg_createdAt :: nat

record enrollment =
  enr_id :: nat
  enr_studentId :: nat
  enr_courseId :: nat
  enr_status :: string
  enr_paymentStatus :: string

record studentProgress =
  sp_id :: nat
  sp_studentId :: nat
  sp_courseId :: nat
  sp_totalLessons :: nat

record database =
  users :: "user list"
  students :: "student list"
  courses :: "course list"
  modules :: "courseModule list"
  lessons :: "lesson list"
  registrations :: "registration list"
  enrollments :: "enrollment list"
  progress :: "studentProgress list"

text \<open>The identifier given to a new row of a table whose identifiers are \<open>ids\<close>.\<close>

definition fresh_id :: "nat list \<Rightarrow> nat" where
  "fresh_id ids = Suc (foldr max ids 0)"

text \<open>
  \<open>update({ where: { id } , data })\<close> changes the one row that \<open>findUnique\<close> finds: the
  first row that satisfies the condition.
\<close>

fun update_first :: "('a \<Rightarrow> bool) \<Rightarrow> ('a \<Rightarrow> 'a) \<Rightarrow> 'a list \<Rightarrow> 'a list" where
  "update_first P f [] = []"
| "update_first P f (x # xs) = (if P x then f x # xs else x # update_first P f xs)"

text \<open>
  A registration fetched with \<open>include: { student: { include: { user: true } }, course: true }\<close>.
  The relations are required ones: the database's foreign keys make them resolve, and the
  ORM raises an error of its own (one the error normalizer knows no category for) if a
  required relation comes back empty.
\<close>

record reg_view =
  rv_registration :: registration
  rv_student :: student
  rv_user :: user
  rv_course :: course

definition inconsistent_result :: js_error where
  "inconsistent_result =
     \<lparr>err_class = OtherError False False None None,
      err_name = ''PrismaClientUnknownRequestError'',
      err_message = ''Inconsistent query result'',
      err_stack = ''PrismaClientUnknownRequestError: Inconsistent query result''\<rparr>"

definition include_relations :: "database \<Rightarrow> registration \<Rightarrow> js_error + reg_view" where
  "include_relations db r =
     (case find (\<lambda>s. student_id s = reg_studentId r) (students db) of
        None \<Rightarrow> Inl inconsistent_result
      | Some s \<Rightarrow>
          (case find (\<lambda>u. user_id u = student_userId s) (users db) of
             None \<Rightarrow> Inl inconsistent_result
           | Some u \<Rightarrow>
               (case find (\<lambda>c. course_id c = reg_courseId r) (courses db) of
                  None \<Rightarrow> Inl inconsistent_result
                | Some c \<Rightarrow>
                    Inr \<lparr>rv_registration = r, rv_student = s, rv_user = u, rv_course = c\<rparr>)))"

text \<open>
  \<open>prisma.lesson.count({ where: { module: { courseId } } })\<close>: the lessons whose module
  belongs to the course.
\<close>

definition lesson_count :: "database \<Rightarrow> nat \<Rightarrow> nat" where
  "lesson_count db cid =
     length (filter (\<lambda>l. case find (\<lambda>m. module_id m = lesson_moduleId l) (modules db) of
                             None \<Rightarrow> False
                           | Some m \<Rightarrow> module_courseId m = cid)
                    (lessons db))"

text \<open>
  The count as the specification words it (and as \<open>GET /registrations/:id\<close> computes it):
  the lessons of each module of the course, summed over the course's modules.
\<close>

definition lessons_in_course_modules :: "database \<Rightarrow> nat \<Rightarrow> nat" where
  "lessons_in_course_modules db cid =
     sum_list (map (\<lambda>m. length (filter (\<lambda>l. lesson_moduleId l = module_id m) (lessons db)))
                   (filter (\<lambda>m. module_courseId m = cid) (modules db)))"

text \<open>\<open>String.prototype.toLowerCase\<close> on the ASCII letters.\<close>

definition toLowerCase :: "string \<Rightarrow> string" where
  "toLowerCase s =
     map (\<lambda>c. let n = (of_char c :: nat) in
               if 65 \<le> n \<and> n \<le> 90 then char_of (n + 32) else c) s"

section \<open>Requests, environment and the credential service (middleware/auth.ts)\<close>

text \<open>
  The identity that the authentication middleware attaches to the request, and the parts
  of a request the middleware and the handlers read: the \<open>Authorization\<close> header, the
  route parameters, the attached identity and the body or query (\<open>req_payload\<close>).
\<close>

record auth_user =
  au_id :: nat
  au_email :: string
  au_role :: string
  au_status :: string

record 'b request =
  req_authorization :: "string option"
  req_params :: "string \<Rightarrow> nat option"
  req_user :: "auth_user option"
  req_payload :: 'b

text \<open>
  The decoded payload. A token that this server issued carries \<open>userId\<close>; a token signed
  with the same secret elsewhere may lack it (\<open>None\<close>).
\<close>

record JWTPayload =
  jwt_userId :: "nat option"
  jwt_email :: string
  jwt_role :: string
  jwt_iat :: nat
  jwt_exp :: nat

text \<open>
  \<open>jwt.verify\<close> returns the payload or throws: \<open>TokenExpiredError\<close> for an expired token,
  another \<open>JsonWebTokenError\<close> for a malformed or tampered one.
\<close>

datatype jwt_failure = TokenExpiredError | JsonWebTokenError

text \<open>
  The process environment and the external collaborators the routes call: the token
  library, the password hash comparison, the clock, and three facts about the database
  engine and the ORM's schema, which is not part of the sources: the error with which the
  user lookup of the authentication middleware is rejected, if it is (\<open>auth_lookup_fault\<close>,
  for example a lost connection); which values the ORM accepts in a filter on the
  registration's status column (\<open>accepts_status\<close>); and the engine's \<open>orderBy\<close>, which
  given the sort key and direction yields the ordered rows, or \<open>None\<close> when the ORM refuses
  the key because it is no column of the model.
\<close>

record env =
  NODE_ENV :: "string option"
  JWT_SECRET :: "string option"
  JWT_EXPIRES_IN :: "string option"
  jwt_verify :: "string \<Rightarrow> string \<Rightarrow> jwt_failure + JWTPayload"
  jwt_sign :: "nat \<times> string \<times> string \<Rightarrow> string \<Rightarrow> string \<Rightarrow> string"
  bcrypt_compare :: "string \<Rightarrow> string \<Rightarrow> bool"
  auth_lookup_fault :: "js_error option"
  accepts_status :: "string \<Rightarrow> bool"
  order_by :: "string \<Rightarrow> string \<Rightarrow> registration list \<Rightarrow> registration list option"
  now :: nat

text \<open>The error the ORM throws when it refuses a query as malformed for its schema.\<close>

definition prisma_validation_error :: js_error where
  "prisma_validation_error =
     \<lparr>err_class = PrismaClientValidationError, err_name = ''PrismaClientValidationError'',
      err_message = ''Invalid invocation'',
      err_stack = ''PrismaClientValidationError: Invalid invocation''\<rparr>"

text \<open>
  \<open>prisma.user.findUnique({ where: { id } })\<close> as the authentication middleware calls it:
  it is rejected when the database refuses the query and when \<open>id\<close> is undefined.
\<close>

definition user_findUnique :: "env \<Rightarrow> database \<Rightarrow> nat option \<Rightarrow> js_error + user option" where
  "user_findUnique ev db uid =
     (case auth_lookup_fault ev of
        Some e \<Rightarrow> Inl e
      | None \<Rightarrow>
          (case uid of
             None \<Rightarrow> Inl prisma_validation_error
           | Some i \<Rightarrow> Inr (find (\<lambda>u. user_id u = i) (users db))))"

datatype verify_result =
    Decoded JWTPayload
  | JwtThrown jwt_failure
  | ErrorThrown js_error

definition secret_missing :: js_error where
  "secret_missing =
     \<lparr>err_class = OtherError False False None None, err_name = ''Error'',
      err_message = ''JWT_SECRET is not defined in environment variables'',
      err_stack = ''Error: JWT_SECRET is not defined in environment variables''\<rparr>"

text \<open>\<open>!secret\<close> holds for an undefined and for an empty secret.\<close>

definition verifyToken :: "env \<Rightarrow> string \<Rightarrow> verify_result" where
  "verifyToken ev token =
     (case JWT_SECRET ev of
        None \<Rightarrow> ErrorThrown secret_missing
      | Some secret \<Rightarrow>
          (if secret = [] then ErrorThrown secret_missing
           else (case jwt_verify ev token secret of
                   Inl f \<Rightarrow> JwtThrown f
                 | Inr payload \<Rightarrow> Decoded payload)))"

definition generateToken :: "env \<Rightarrow> nat \<Rightarrow> string \<Rightarrow> string \<Rightarrow> js_error + string" where
  "generateToken ev userId email role =
     (case JWT_SECRET ev of
        None \<Rightarrow> Inl secret_missing
      | Some secret \<Rightarrow>
          (if secret = [] then Inl secret_missing
           else Inr (jwt_sign ev (userId, email, role) secret
                       (case JWT_EXPIRES_IN ev of
                          None \<Rightarrow> ''7d''
                        | Some d \<Rightarrow> if d = [] then ''7d'' else d))))"

text \<open>A middleware either answers the request or passes it on (\<open>next()\<close>).\<close>

datatype 'a mw = Respond response | Next 'a

definition auth_reply :: "int \<Rightarrow> string \<Rightarrow> string \<Rightarrow> response" where
  "auth_reply sc err msg =
     \<lparr>res_status = sc, res_body = JObj [(''error'', JStr err), (''message'', JStr msg)]\<rparr>"

definition authenticateUser :: "env \<Rightarrow> database \<Rightarrow> 'b request \<Rightarrow> 'b request mw" where
  "authenticateUser ev db req =
     (case req_authorization req of
        None \<Rightarrow> Respond (auth_reply 401 ''Authentication required''
                            ''Please provide a valid authentication token'')
      | Some authHeader \<Rightarrow>
          (if authHeader = [] \<or> \<not> prefix ''Bearer '' authHeader then
             Respond (auth_reply 401 ''Authentication required''
                        ''Please provide a valid authentication token'')
           else
             (case verifyToken ev (drop 7 authHeader) of
                Decoded decoded \<Rightarrow>
                  (case user_findUnique ev db (jwt_userId decoded) of
                     Inl e \<Rightarrow>
                       Respond (auth_reply 500 ''Authentication failed''
                                  ''An error occurred during authentication'')
                   | Inr None \<Rightarrow> Respond (auth_reply 401 ''Invalid token'' ''User not found'')
                   | Inr (Some u) \<Rightarrow>
                       (if user_status u \<noteq> ''ACTIVE'' then
                          Respond (auth_reply 401 ''Account inactive''
                                     ''Your account has been deactivated'')
                        else
                          Next (req\<lparr>req_user :=
                                  Some \<lparr>au_id = user_id u, au_email = user_email u,
                                        au_role = user_role u, au_status = user_status u\<rparr>\<rparr>)))
              | JwtThrown TokenExpiredError \<Rightarrow>
                  Respond (auth_reply 401 ''Token expired''
                             ''Your session has expired. Please log in again.'')
              | JwtThrown JsonWebTokenError \<Rightarrow>
                  Respond (auth_reply 401 ''Invalid token'' ''Authentication token is invalid'')
              | ErrorThrown e \<Rightarrow>
                  Respond (auth_reply 500 ''Authentication failed''
                             ''An error occurred during authentication''))))"

text \<open>\<open>roles.join(', ')\<close>.\<close>

fun join :: "string \<Rightarrow> string list \<Rightarrow> string" where
  "join sep [] = []"
| "join sep [x] = x"
| "join sep (x # y # ys) = x @ sep @ join sep (y # ys)"

definition requireRole :: "string list \<Rightarrow> 'b request \<Rightarrow> 'b request mw" where
  "requireRole roles req =
     (case req_user req of
        None \<Rightarrow> Respond (auth_reply 401 ''Authentication required''
                            ''You must be logged in to access this resource'')
      | Some u \<Rightarrow>
          (if au_role u \<notin> set roles then
             Respond (auth_reply 403 ''Insufficient permissions''
                        (''This action requires one of the following roles: ''
                         @ join '', '' roles))
           else Next req))"

definition requireAdmin :: "'b request \<Rightarrow> 'b request mw" where
  "requireAdmin = requireRole [''ADMIN'']"

definition requireStudent :: "'b request \<Rightarrow> 'b request mw" where
  "requireStudent = requireRole [''STUDENT'']"

definition requireStudentOrAdmin :: "'b request \<Rightarrow> 'b request mw" where
  "requireStudentOrAdmin = requireRole [''STUDENT'', ''ADMIN'']"

definition requireSelfOrAdmin :: "string \<Rightarrow> 'b request \<Rightarrow> 'b request mw" where
  "requireSelfOrAdmin userIdParam req =
     (case req_user req of
        None \<Rightarrow> Respond (auth_reply 401 ''Authentication required''
                            ''You must be logged in to access this resource'')
      | Some u \<Rightarrow>
          (let targetUserId = req_params req userIdParam;
               isAdmin = (au_role u = ''ADMIN'');
               isSelf = (Some (au_id u) = targetUserId)
           in if \<not> isAdmin \<and> \<not> isSelf then
                Respond (auth_reply 403 ''Access denied'' ''You can only access your own data'')
              else Next req))"

section \<open>Schema validator (middleware/validation.ts)\<close>

text \<open>
  A body or query key as the schema library sees it: absent, present with a value that is
  not of the schema's base type (and cannot be converted to it), or present with a value
  of that type. A raw body or query also lists the keys that the schema does not declare.
\<close>

datatype 'a field = Absent | WrongType | Present 'a

fun field_value :: "'a field \<Rightarrow> 'a option" where
  "field_value (Present v) = Some v"
| "field_value _ = None"

text \<open>
  One entry of the library's error list: the path of the field and the library's error
  type, which determines the message text.
\<close>

record field_error =
  fe_field :: string
  fe_type :: string

definition ferr :: "string \<Rightarrow> string \<Rightarrow> field_error" where
  "ferr k t = \<lparr>fe_field = k, fe_type = t\<rparr>"

text \<open>
  The rules of \<open>Joi.string()\<close> that the schemas use: \<open>min\<close>, \<open>max\<close>, \<open>required\<close> and
  \<open>valid\<close>. An empty string is not allowed; a value on the \<open>valid\<close> list is accepted at
  once. All violations are collected (\<open>abortEarly: false\<close>).
\<close>

record string_rules =
  sr_min :: "nat option"
  sr_max :: "nat option"
  sr_required :: bool
  sr_valid :: "string list option"

definition joi_string :: "string \<Rightarrow> string_rules \<Rightarrow> string field \<Rightarrow> field_error list" where
  "joi_string k rules v =
     (case v of
        Absent \<Rightarrow> (if sr_required rules then [ferr k ''any.required''] else [])
      | WrongType \<Rightarrow>
          (if sr_valid rules \<noteq> None then [ferr k ''any.only''] else [])
          @ [ferr k ''string.base'']
      | Present s \<Rightarrow>
          (if (case sr_valid rules of None \<Rightarrow> False | Some vs \<Rightarrow> s \<in> set vs) then []
           else
             (if sr_valid rules \<noteq> None then [ferr k ''any.only''] else [])
             @ (if s = [] then [ferr k ''string.empty'']
                else
                  (case sr_min rules of
                     None \<Rightarrow> []
                   | Some n \<Rightarrow> if length s < n then [ferr k ''string.min''] else [])
                  @ (case sr_max rules of
                       None \<Rightarrow> []
                     | Some n \<Rightarrow> if length s > n then [ferr k ''string.max''] else []))))"

text \<open>\<open>Joi.number()\<close> with \<open>min\<close> and \<open>max\<close>; the numbers are exact rationals.\<close>

definition joi_number :: "string \<Rightarrow> rat option \<Rightarrow> rat option \<Rightarrow> rat field \<Rightarrow> field_error list"
  where
  "joi_number k lo hi v =
     (case v of
        Absent \<Rightarrow> []
      | WrongType \<Rightarrow> [ferr k ''number.base'']
      | Present n \<Rightarrow>
          (case lo of None \<Rightarrow> [] | Some l \<Rightarrow> if n < l then [ferr k ''number.min''] else [])
          @ (case hi of None \<Rightarrow> [] | Some h \<Rightarrow> if n > h then [ferr k ''number.max''] else []))"

text \<open>
  \<open>Joi.date()\<close>, optionally with \<open>min(Joi.ref(...))\<close>: the referenced key must itself hold
  a date, and the value must not precede it.
\<close>

definition joi_date :: "string \<Rightarrow> nat field option \<Rightarrow> nat field \<Rightarrow> field_error list" where
  "joi_date k min_ref v =
     (case v of
        Absent \<Rightarrow> []
      | WrongType \<Rightarrow> [ferr k ''date.base'']
      | Present d \<Rightarrow>
          (case min_ref of
             None \<Rightarrow> []
           | Some (Present lo) \<Rightarrow> if d < lo then [ferr k ''date.min''] else []
           | Some _ \<Rightarrow> [ferr k ''any.ref'']))"

definition unknown_keys :: "string list \<Rightarrow> field_error list" where
  "unknown_keys ks = map (\<lambda>k. ferr k ''object.unknown'') ks"

definition plain_string :: string_rules where
  "plain_string = \<lparr>sr_min = None, sr_max = None, sr_required = False, sr_valid = None\<rparr>"

subsection \<open>\<open>registrationActionValidation\<close>\<close>

record action_raw =
  ar_action :: "string field"
  ar_message :: "string field"
  ar_unknown :: "string list"

record action_body =
  ab_action :: string
  ab_message :: "string option"

definition registrationActionValidation :: "action_raw \<Rightarrow> field_error list + action_body" where
  "registrationActionValidation raw =
     (let errs =
            joi_string ''action''
              (plain_string\<lparr>sr_required := True, sr_valid := Some [''approve'', ''reject'']\<rparr>)
              (ar_action raw)
            @ (if ar_action raw = Present ''reject'' then
                 joi_string ''message''
                   (plain_string\<lparr>sr_min := Some 10, sr_max := Some 500, sr_required := True\<rparr>)
                   (ar_message raw)
               else
                 joi_string ''message'' (plain_string\<lparr>sr_max := Some 500\<rparr>) (ar_message raw))
            @ unknown_keys (ar_unknown raw)
      in case (errs, ar_action raw) of
           ([], Present a) \<Rightarrow> Inr \<lparr>ab_action = a, ab_message = field_value (ar_message raw)\<rparr>
         | _ \<Rightarrow> Inl errs)"

subsection \<open>\<open>paginationValidation.concat(searchValidation)\<close>\<close>

record list_raw =
  lq_page :: "rat field"
  lq_limit :: "rat field"
  lq_sortBy :: "string field"
  lq_sortOrder :: "string field"
  lq_q :: "string field"
  lq_category :: "string field"
  lq_status :: "string field"
  lq_startDate :: "nat field"
  lq_endDate :: "nat field"
  lq_unknown :: "string list"

record list_query =
  lv_page :: rat
  lv_limit :: rat
  lv_sortBy :: "string option"
  lv_sortOrder :: string
  lv_q :: "string option"
  lv_category :: "string option"
  lv_status :: "string option"
  lv_startDate :: "nat option"
  lv_endDate :: "nat option"

definition paginationValidation_errors :: "list_raw \<Rightarrow> field_error list" where
  "paginationValidation_errors raw =
     joi_number ''page'' (Some 1) None (lq_page raw)
     @ joi_number ''limit'' (Some 1) (Some 100) (lq_limit raw)
     @ joi_string ''sortBy'' plain_string (lq_sortBy raw)
     @ joi_string ''sortOrder'' (plain_string\<lparr>sr_valid := Some [''asc'', ''desc'']\<rparr>)
         (lq_sortOrder raw)"

definition searchValidation_errors :: "list_raw \<Rightarrow> field_error list" where
  "searchValidation_errors raw =
     joi_string ''q'' (plain_string\<lparr>sr_min := Some 1, sr_max := Some 100\<rparr>) (lq_q raw)
     @ joi_string ''category'' (plain_string\<lparr>sr_max := Some 50\<rparr>) (lq_category raw)
     @ joi_string ''status'' plain_string (lq_status raw)
     @ joi_date ''startDate'' None (lq_startDate raw)
     @ joi_date ''endDate'' (Some (lq_startDate raw)) (lq_endDate raw)"

text \<open>The value of a passing query, with the schema's defaults filled in.\<close>

definition list_value :: "list_raw \<Rightarrow> list_query" where
  "list_value raw =
     \<lparr>lv_page = (case lq_page raw of Present n \<Rightarrow> n | _ \<Rightarrow> 1),
      lv_limit = (case lq_limit raw of Present n \<Rightarrow> n | _ \<Rightarrow> 10),
      lv_sortBy = field_value (lq_sortBy raw),
      lv_sortOrder = (case lq_sortOrder raw of Present s \<Rightarrow> s | _ \<Rightarrow> ''desc''),
      lv_q = field_value (lq_q raw),
      lv_category = field_value (lq_category raw),
      lv_status = field_value (lq_status raw),
      lv_startDate = field_value (lq_startDate raw),
      lv_endDate = field_value (lq_endDate raw)\<rparr>"

definition paginationSearchValidation :: "list_raw \<Rightarrow> field_error list + list_query" where
  "paginationSearchValidation raw =
     (let errs = paginationValidation_errors raw @ searchValidation_errors raw
                 @ unknown_keys (lq_unknown raw)
      in if errs = [] then Inr (list_value raw) else Inl errs)"

subsection \<open>\<open>validate\<close> and \<open>validateQuery\<close>\<close>

text \<open>
  The \<open>details\<close> array of a validation failure has one object per error. The source
  puts the field path, the library's message text and the offending value in it; here an
  entry carries the field path and the error type that the text is derived from.
\<close>

definition error_details :: "field_error list \<Rightarrow> json" where
  "error_details errs =
     JArr (map (\<lambda>e. JObj [(''field'', JStr (fe_field e)), (''type'', JStr (fe_type e))]) errs)"

definition with_payload :: "'a request \<Rightarrow> 'b \<Rightarrow> 'b request" where
  "with_payload req v =
     \<lparr>req_authorization = req_authorization req, req_params = req_params req,
      req_user = req_user req, req_payload = v\<rparr>"

definition validate :: "('a \<Rightarrow> field_error list + 'b) \<Rightarrow> 'a request \<Rightarrow> 'b request mw" where
  "validate schema req =
     (case schema (req_payload req) of
        Inl errs \<Rightarrow>
          Respond \<lparr>res_status = 400,
                   res_body = JObj [(''error'', JStr ''Validation failed''),
                                    (''message'', JStr ''Please check your input data''),
                                    (''details'', error_details errs)]\<rparr>
      | Inr v \<Rightarrow> Next (with_payload req v))"

definition validateQuery :: "('a \<Rightarrow> field_error list + 'b) \<Rightarrow> 'a request \<Rightarrow> 'b request mw"
  where
  "validateQuery schema req =
     (case schema (req_payload req) of
        Inl errs \<Rightarrow>
          Respond \<lparr>res_status = 400,
                   res_body = JObj [(''error'', JStr ''Invalid query parameters''),
                                    (''details'', error_details errs)]\<rparr>
      | Inr v \<Rightarrow> Next (with_payload req v))"

section \<open>Route handlers\<close>

text \<open>
  A handler returns the thrown error or the status and payload of its success response,
  together with the database as it leaves it: the writes are separate statements, not one
  transaction, so a handler that throws keeps the writes made before. The success payload
  is the record the handler builds its JSON from; the notification link, which no record
  depends on, is not part of it.
\<close>

type_synonym 'a handled = "(js_error + int \<times> 'a) \<times> database"

text \<open>
  What the client gets from a route: a reply with a JSON body (from a middleware or from
  the error normalizer), a reply without body, the handler's success, or nothing from the
  route itself because the error normalizer threw (\<open>Escaped\<close>).
\<close>

datatype 'a reply = Replied response | Bodiless int | Escaped js_error | Succeeded int 'a

text \<open>\<open>asyncHandler\<close> hands a thrown error to the terminal \<open>errorHandler\<close>.\<close>

definition asyncHandler :: "env \<Rightarrow> 'a handled \<Rightarrow> 'a reply \<times> database" where
  "asyncHandler ev h =
     (case h of
        (Inl e, db) \<Rightarrow>
          (case errorHandler_middleware (NODE_ENV ev) (ErrorObject e) of
             Inl escaped \<Rightarrow> (Escaped escaped, db)
           | Inr out \<Rightarrow>
               (case sent_body out of
                  None \<Rightarrow> (Bodiless (sent_status out), db)
                | Some b \<Rightarrow> (Replied \<lparr>res_status = sent_status out, res_body = b\<rparr>, db)))
      | (Inr (sc, v), db) \<Rightarrow> (Succeeded sc v, db))"

definition type_error :: js_error where
  "type_error =
     \<lparr>err_class = OtherError False False None None, err_name = ''TypeError'',
      err_message = ''Cannot read properties of undefined'',
      err_stack = ''TypeError: Cannot read properties of undefined''\<rparr>"

subsection \<open>\<open>POST /registrations\<close> (routes/registrations.ts)\<close>

record registration_body =
  rb_firstName :: string
  rb_lastName :: string
  rb_email :: string
  rb_phone :: "string option"
  rb_profile :: profile
  rb_courseId :: nat
  rb_message :: "string option"

text \<open>
  The block that finds or creates the user and the student profile; it yields the
  student's identifier and the database after the creations.
\<close>

definition resolve_student :: "database \<Rightarrow> registration_body \<Rightarrow> nat \<times> database" where
  "resolve_student db b =
     (case find (\<lambda>u. user_email u = toLowerCase (rb_email b)) (users db) of
        Some existingUser \<Rightarrow>
          (case find (\<lambda>s. student_userId s = user_id existingUser) (students db) of
             None \<Rightarrow>
               (let student = \<lparr>student_id = fresh_id (map student_id (students db)),
                               student_userId = user_id existingUser,
                               student_profile = rb_profile b\<rparr>
                in (student_id student, db\<lparr>students := students db @ [student]\<rparr>))
           | Some existingStudent \<Rightarrow> (student_id existingStudent, db))
      | None \<Rightarrow>
          (let usr = \<lparr>user_id = fresh_id (map user_id (users db)),
                      user_email = toLowerCase (rb_email b),
                      user_password = ''temp_password_will_be_set_on_approval'',
                      user_firstName = rb_firstName b,
                      user_lastName = rb_lastName b,
                      user_phone = rb_phone b,
                      user_role = ''STUDENT'',
                      user_status = ''INACTIVE''\<rparr>;
               student = \<lparr>student_id = fresh_id (map student_id (students db)),
                           student_userId = user_id usr,
                           student_profile = rb_profile b\<rparr>
           in (student_id student,
               db\<lparr>users := users db @ [usr], students := students db @ [student]\<rparr>)))"

definition post_registrations ::
  "env \<Rightarrow> database \<Rightarrow> registration_body request \<Rightarrow> reg_view handled" where
  "post_registrations ev db req =
     (let b = req_payload req in
      case find (\<lambda>c. course_id c = rb_courseId b) (courses db) of
        None \<Rightarrow> (Inl (mkCustomError ''Course not found'' 404 ''COURSE_NOT_FOUND''), db)
      | Some crs \<Rightarrow>
          (case resolve_student db b of
             (studentId, db1) \<Rightarrow>
               (case find (\<lambda>r. reg_studentId r = studentId \<and> reg_courseId r = rb_courseId b
                                \<and> reg_status r \<in> {''PENDING'', ''APPROVED''})
                          (registrations db1) of
                  Some existingRegistration \<Rightarrow>
                    (Inl (mkCustomError ''A registration for this course already exists'' 409
                            ''REGISTRATION_EXISTS''), db1)
                | None \<Rightarrow>
                    (let registration =
                           \<lparr>reg_id = fresh_id (map reg_id (registrations db1)),
                            reg_studentId = studentId,
                            reg_courseId = rb_courseId b,
                            reg_message = rb_message b,
                            reg_status = ''PENDING'',
                            reg_reviewedBy = None,
                            reg_reviewedAt = None,
                            reg_rejectionReason = None,
                            reg_createdAt = now ev\<rparr>;
                         db2 = db1\<lparr>registrations := registrations db1 @ [registration]\<rparr>
                     in case include_relations db2 registration of
                          Inl e \<Rightarrow> (Inl e, db2)
                        | Inr created \<Rightarrow> (Inr (201, created), db2)))))"

text \<open>
  The same handler in the two parts that its awaits separate: everything through the
  \<open>findFirst\<close> check, which yields the thrown error or the student's identifier, and the
  \<open>create\<close> with the response, which runs on the database as it is by then. Between the
  two, the handler of another request may run.
\<close>

definition post_registrations_check ::
  "env \<Rightarrow> database \<Rightarrow> registration_body request \<Rightarrow> (js_error + nat) \<times> database" where
  "post_registrations_check ev db req =
     (let b = req_payload req in
      case find (\<lambda>c. course_id c = rb_courseId b) (courses db) of
        None \<Rightarrow> (Inl (mkCustomError ''Course not found'' 404 ''COURSE_NOT_FOUND''), db)
      | Some crs \<Rightarrow>
          (case resolve_student db b of
             (studentId, db1) \<Rightarrow>
               (case find (\<lambda>r. reg_studentId r = studentId \<and> reg_courseId r = rb_courseId b
                                \<and> reg_status r \<in> {''PENDING'', ''APPROVED''})
                          (registrations db1) of
                  Some existingRegistration \<Rightarrow>
                    (Inl (mkCustomError ''A registration for this course already exists'' 409
                            ''REGISTRATION_EXISTS''), db1)
                | None \<Rightarrow> (Inr studentId, db1))))"

definition post_registrations_create ::
  "env \<Rightarrow> database \<Rightarrow> registration_body request \<Rightarrow> nat \<Rightarrow> reg_view handled" where
  "post_registrations_create ev db1 req studentId =
     (let b = req_payload req;
          registration =
            \<lparr>reg_id = fresh_id (map reg_id (registrations db1)),
             reg_studentId = studentId,
             reg_courseId = rb_courseId b,
             reg_message = rb_message b,
             reg_status = ''PENDING'',
             reg_reviewedBy = None,
             reg_reviewedAt = None,
             reg_rejectionReason = None,
             reg_createdAt = now ev\<rparr>;
          db2 = db1\<lparr>registrations := registrations db1 @ [registration]\<rparr>
      in case include_relations db2 registration of
           Inl e \<Rightarrow> (Inl e, db2)
         | Inr created \<Rightarrow> (Inr (201, created), db2))"

text \<open>
  Two requests whose handlers overlap: the second request's check runs after the first
  request's check and before the first request's create.
\<close>

definition overlapped_posts ::
  "env \<Rightarrow> database \<Rightarrow> registration_body request \<Rightarrow> registration_body request \<Rightarrow> database"
  where
  "overlapped_posts ev db reqA reqB =
     (case post_registrations_check ev db reqA of
        (Inl e, db1) \<Rightarrow> snd (post_registrations ev db1 reqB)
      | (Inr studentA, db1) \<Rightarrow>
          (case post_registrations_check ev db1 reqB of
             (Inl e, db2) \<Rightarrow> snd (post_registrations_create ev db2 reqA studentA)
           | (Inr studentB, db2) \<Rightarrow>
               snd (post_registrations_create ev
                      (snd (post_registrations_create ev db2 reqA studentA)) reqB studentB)))"

subsection \<open>\<open>PATCH /registrations/:id/action\<close>\<close>

text \<open>JavaScript truthiness of an optional string: defined and not empty.\<close>

definition truthy :: "string option \<Rightarrow> bool" where
  "truthy v = (case v of None \<Rightarrow> False | Some s \<Rightarrow> s \<noteq> [])"

text \<open>The \<open>updateData\<close> object, as the change it makes to the registration row.\<close>

definition updateData :: "env \<Rightarrow> auth_user \<Rightarrow> action_body \<Rightarrow> registration \<Rightarrow> registration" where
  "updateData ev u b r =
     r\<lparr>reg_status := (if ab_action b = ''approve'' then ''APPROVED'' else ''REJECTED''),
       reg_reviewedBy := Some (au_id u),
       reg_reviewedAt := Some (now ev),
       reg_rejectionReason :=
         (if ab_action b = ''reject'' \<and> truthy (ab_message b) then ab_message b
          else reg_rejectionReason r)\<rparr>"

text \<open>The block that runs when the action is \<open>approve\<close>, after the registration's update.\<close>

definition approve_effects :: "database \<Rightarrow> reg_view \<Rightarrow> database" where
  "approve_effects db1 updatedRegistration =
     (let db2 = (if user_status (rv_user updatedRegistration) = ''INACTIVE'' then
                   db1\<lparr>users :=
                         update_first (\<lambda>x. user_id x = user_id (rv_user updatedRegistration))
                           (\<lambda>x. x\<lparr>user_status := ''ACTIVE''\<rparr>) (users db1)\<rparr>
                 else db1);
          db3 = db2\<lparr>enrollments := enrollments db2 @
                  [\<lparr>enr_id = fresh_id (map enr_id (enrollments db2)),
                    enr_studentId = student_id (rv_student updatedRegistration),
                    enr_courseId = course_id (rv_course updatedRegistration),
                    enr_status = ''ACTIVE'',
                    enr_paymentStatus = ''PENDING''\<rparr>]\<rparr>;
          totalLessons = lesson_count db3 (course_id (rv_course updatedRegistration))
      in db3\<lparr>progress := progress db3 @
               [\<lparr>sp_id = fresh_id (map sp_id (progress db3)),
                 sp_studentId = student_id (rv_student updatedRegistration),
                 sp_courseId = course_id (rv_course updatedRegistration),
                 sp_totalLessons = totalLessons\<rparr>]\<rparr>)"

definition patch_registration_action ::
  "env \<Rightarrow> database \<Rightarrow> action_body request \<Rightarrow> reg_view handled" where
  "patch_registration_action ev db req =
     (case req_params req ''id'' of
        None \<Rightarrow> (Inl prisma_validation_error, db)
      | Some i \<Rightarrow>
          (case find (\<lambda>r. reg_id r = i) (registrations db) of
             None \<Rightarrow>
               (Inl (mkCustomError ''Registration not found'' 404 ''REGISTRATION_NOT_FOUND''), db)
           | Some r0 \<Rightarrow>
               (case include_relations db r0 of
                  Inl e \<Rightarrow> (Inl e, db)
                | Inr registration \<Rightarrow>
                    (if reg_status (rv_registration registration) \<noteq> ''PENDING'' then
                       (Inl (mkCustomError ''Registration has already been processed'' 400
                               ''REGISTRATION_PROCESSED''), db)
                     else
                       (case req_user req of
                          None \<Rightarrow> (Inl type_error, db)
                        | Some u \<Rightarrow>
                            (let b = req_payload req;
                                 db1 = db\<lparr>registrations :=
                                            update_first (\<lambda>r. reg_id r = i) (updateData ev u b)
                                              (registrations db)\<rparr>
                             in case include_relations db1 (updateData ev u b r0) of
                                  Inl e \<Rightarrow> (Inl e, db1)
                                | Inr updatedRegistration \<Rightarrow>
                                    (if ab_action b = ''approve'' then
                                       (Inr (200, updatedRegistration),
                                        approve_effects db1 updatedRegistration)
                                     else (Inr (200, updatedRegistration), db1))))))))"

definition registrations_action_route ::
  "env \<Rightarrow> database \<Rightarrow> action_raw request \<Rightarrow> reg_view reply \<times> database" where
  "registrations_action_route ev db req =
     (case authenticateUser ev db req of
        Respond r \<Rightarrow> (Replied r, db)
      | Next req1 \<Rightarrow>
          (case requireAdmin req1 of
             Respond r \<Rightarrow> (Replied r, db)
           | Next req2 \<Rightarrow>
               (case validate registrationActionValidation req2 of
                  Respond r \<Rightarrow> (Replied r, db)
                | Next req3 \<Rightarrow> asyncHandler ev (patch_registration_action ev db req3))))"

subsection \<open>\<open>GET /registrations\<close>\<close>

fun is_infix :: "string \<Rightarrow> string \<Rightarrow> bool" where
  "is_infix xs [] = (xs = [])"
| "is_infix xs (y # ys) = (prefix xs (y # ys) \<or> is_infix xs ys)"

text \<open>\<open>{ contains: q, mode: 'insensitive' }\<close>.\<close>

definition contains_insensitive :: "string \<Rightarrow> string \<Rightarrow> bool" where
  "contains_insensitive needle s = is_infix (toLowerCase needle) (toLowerCase s)"

record where_clause =
  w_status :: "string option"
  w_q :: "string option"

definition build_where :: "list_query \<Rightarrow> where_clause" where
  "build_where lq =
     \<lparr>w_status = (if truthy (lv_status lq) then lv_status lq else None),
      w_q = (if truthy (lv_q lq) then lv_q lq else None)\<rparr>"

definition where_matches :: "database \<Rightarrow> where_clause \<Rightarrow> registration \<Rightarrow> bool" where
  "where_matches db w r =
     ((case w_status w of None \<Rightarrow> True | Some s \<Rightarrow> reg_status r = s)
      \<and> (case w_q w of
           None \<Rightarrow> True
         | Some needle \<Rightarrow>
             (case find (\<lambda>s. student_id s = reg_studentId r) (students db) of
                None \<Rightarrow> False
              | Some s \<Rightarrow>
                  (case find (\<lambda>u. user_id u = student_userId s) (users db) of
                     None \<Rightarrow> False
                   | Some u \<Rightarrow>
                       contains_insensitive needle (user_firstName u)
                       \<or> contains_insensitive needle (user_lastName u)
                       \<or> contains_insensitive needle (user_email u)))
             \<or> (case find (\<lambda>c. course_id c = reg_courseId r) (courses db) of
                   None \<Rightarrow> False
                 | Some c \<Rightarrow> contains_insensitive needle (course_title c))))"

fun collect :: "('e + 'a) list \<Rightarrow> 'e + 'a list" where
  "collect [] = Inr []"
| "collect (x # xs) =
     (case x of
        Inl e \<Rightarrow> Inl e
      | Inr v \<Rightarrow> (case collect xs of Inl e \<Rightarrow> Inl e | Inr vs \<Rightarrow> Inr (v # vs)))"

definition is_integer :: "rat \<Rightarrow> bool" where
  "is_integer x = (of_int \<lfloor>x\<rfloor> = x)"

text \<open>
  \<open>findMany\<close> with \<open>where\<close>, \<open>orderBy\<close>, \<open>skip\<close> and \<open>take\<close>, and \<open>count\<close> with the same
  \<open>where\<close>. The ORM refuses a status value that the column does not accept, an \<open>orderBy\<close>
  key that is no column, and a \<open>skip\<close> or \<open>take\<close> that is not an integer.
\<close>

definition where_accepted :: "env \<Rightarrow> where_clause \<Rightarrow> bool" where
  "where_accepted ev w = (case w_status w of None \<Rightarrow> True | Some s \<Rightarrow> accepts_status ev s)"

definition findMany_registrations ::
  "env \<Rightarrow> database \<Rightarrow> where_clause \<Rightarrow> string \<Rightarrow> string \<Rightarrow> rat \<Rightarrow> rat \<Rightarrow> js_error + reg_view list"
  where
  "findMany_registrations ev db w skey sdir skip tk =
     (if \<not> where_accepted ev w \<or> \<not> is_integer skip \<or> \<not> is_integer tk then
        Inl prisma_validation_error
      else
        (case order_by ev skey sdir (filter (where_matches db w) (registrations db)) of
           None \<Rightarrow> Inl prisma_validation_error
         | Some ordered \<Rightarrow>
             collect (map (include_relations db)
                        (take (nat \<lfloor>tk\<rfloor>) (drop (nat \<lfloor>skip\<rfloor>) ordered)))))"

definition count_registrations :: "env \<Rightarrow> database \<Rightarrow> where_clause \<Rightarrow> js_error + nat" where
  "count_registrations ev db w =
     (if \<not> where_accepted ev w then Inl prisma_validation_error
      else Inr (length (filter (where_matches db w) (registrations db))))"

record pagination =
  pg_page :: rat
  pg_limit :: rat
  pg_total :: nat
  pg_pages :: "int option"

record list_result =
  lr_registrations :: "reg_view list"
  lr_pagination :: pagination

text \<open>
  The handler awaits both queries together and throws if either is rejected.
  \<open>Math.ceil(total / limit)\<close>; a zero limit gives no finite number (\<open>None\<close>).
\<close>

definition get_registrations ::
  "env \<Rightarrow> database \<Rightarrow> list_query request \<Rightarrow> list_result handled" where
  "get_registrations ev db req =
     (let lq = req_payload req;
          offset = (lv_page lq - 1) * lv_limit lq;
          w = build_where lq
      in case findMany_registrations ev db w
                (case lv_sortBy lq of None \<Rightarrow> ''createdAt'' | Some k \<Rightarrow> k) (lv_sortOrder lq)
                offset (lv_limit lq) of
           Inl e \<Rightarrow> (Inl e, db)
         | Inr rows \<Rightarrow>
             (case count_registrations ev db w of
                Inl e \<Rightarrow> (Inl e, db)
              | Inr n \<Rightarrow>
                  (Inr (200,
                        \<lparr>lr_registrations = rows,
                         lr_pagination =
                           \<lparr>pg_page = lv_page lq, pg_limit = lv_limit lq, pg_total = n,
                            pg_pages = (if lv_limit lq = 0 then None
                                        else Some \<lceil>of_nat n / lv_limit lq\<rceil>)\<rparr>\<rparr>), db)))"

definition registrations_list_route ::
  "env \<Rightarrow> database \<Rightarrow> list_raw request \<Rightarrow> list_result reply \<times> database" where
  "registrations_list_route ev db req =
     (case authenticateUser ev db req of
        Respond r \<Rightarrow> (Replied r, db)
      | Next req1 \<Rightarrow>
          (case requireAdmin req1 of
             Respond r \<Rightarrow> (Replied r, db)
           | Next req2 \<Rightarrow>
               (case validateQuery paginationSearchValidation req2 of
                  Respond r \<Rightarrow> (Replied r, db)
                | Next req3 \<Rightarrow> asyncHandler ev (get_registrations ev db req3))))"

subsection \<open>\<open>POST /auth/login\<close> (routes/auth.ts)\<close>

record login_body =
  lb_email :: string
  lb_password :: string

record login_result =
  lg_token :: string
  lg_user :: user

definition post_login :: "env \<Rightarrow> database \<Rightarrow> login_body request \<Rightarrow> login_result handled" where
  "post_login ev db req =
     (let b = req_payload req in
      case find (\<lambda>u. user_email u = toLowerCase (lb_email b)) (users db) of
        None \<Rightarrow> (Inl (mkCustomError ''Invalid email or password'' 401 ''INVALID_CREDENTIALS''), db)
      | Some u \<Rightarrow>
          (if user_status u \<noteq> ''ACTIVE'' then
             (Inl (mkCustomError ''Account is inactive. Please contact support.'' 401
                     ''ACCOUNT_INACTIVE''), db)
           else if \<not> bcrypt_compare ev (lb_password b) (user_password u) then
             (Inl (mkCustomError ''Invalid email or password'' 401 ''INVALID_CREDENTIALS''), db)
           else
             (case generateToken ev (user_id u) (user_email u) (user_role u) of
                Inl e \<Rightarrow> (Inl e, db)
              | Inr token \<Rightarrow> (Inr (200, \<lparr>lg_token = token, lg_user = u\<rparr>), db))))"

section \<open>Registrations over a sequence of requests\<close>

text \<open>
  The student-course pairs of the registrations that are pending or approved, one entry
  per such registration; and the property that no pair occurs twice.
\<close>

definition active_pairs :: "registration list \<Rightarrow> (nat \<times> nat) list" where
  "active_pairs rs =
     map (\<lambda>r. (reg_studentId r, reg_courseId r))
       (filter (\<lambda>r. reg_status r \<in> {''PENDING'', ''APPROVED''}) rs)"

definition one_registration_per_pair :: "database \<Rightarrow> bool" where
  "one_registration_per_pair db = distinct (active_pairs (registrations db))"

text \<open>
  The two routes that write registrations, served one request after the other, each with
  the environment (clock) of its moment.
\<close>

datatype api_call =
    PostRegistrations "registration_body request"
  | PatchRegistrationAction "action_body request"

fun serve :: "database \<Rightarrow> env \<times> api_call \<Rightarrow> database" where
  "serve db (ev, PostRegistrations req) = snd (post_registrations ev db req)"
| "serve db (ev, PatchRegistrationAction req) = snd (patch_registration_action ev db req)"

section \<open>A sample deployment\<close>

text \<open>
  A small concrete environment and database on which the theorems below are instantiated:
  an active administrator, a student account that is still inactive, one course with two
  modules and three lessons, one pending and one rejected registration.
\<close>

definition sample_payload :: "nat \<Rightarrow> string \<Rightarrow> JWTPayload" where
  "sample_payload uid role =
     \<lparr>jwt_userId = Some uid, jwt_email = ''user@example.com'', jwt_role = role,
      jwt_iat = 0, jwt_exp = 100\<rparr>"

definition sample_env :: env where
  "sample_env =
     \<lparr>NODE_ENV = Some ''production'',
      JWT_SECRET = Some ''s3cret'',
      JWT_EXPIRES_IN = None,
      jwt_verify = (\<lambda>token secret.
         if token = ''admin'' then Inr (sample_payload 1 ''ADMIN'')
         else if token = ''student'' then Inr (sample_payload 2 ''STUDENT'')
         else if token = ''ghost'' then Inr (sample_payload 99 ''STUDENT'')
         else if token = ''old'' then Inl TokenExpiredError
         else Inl JsonWebTokenError),
      jwt_sign = (\<lambda>payload secret expiry. ''signed''),
      bcrypt_compare = (\<lambda>password hashed. hashed = ''hash:'' @ password),
      auth_lookup_fault = None,
      accepts_status = (\<lambda>s. s \<in> {''PENDING'', ''APPROVED'', ''REJECTED''}),
      order_by = (\<lambda>k d rs. if k \<in> {''createdAt'', ''status'', ''id''} then Some rs else None),
      now = 1000\<rparr>"

definition sample_profile :: profile where
  "sample_profile =
     \<lparr>dateOfBirth = None, gender = None, nationality = None, address = None, city = None,
      state = None, postalCode = None, country = None, emergencyContactName = None,
      emergencyContactPhone = None, emergencyContactEmail = None, previousEducation = None,
      workExperience = None\<rparr>"

definition sample_admin :: user where
  "sample_admin =
     \<lparr>user_id = 1, user_email = ''admin@eckschool.com'', user_password = ''hash:admin123'',
      user_firstName = ''Admin'', user_lastName = ''User'', user_phone = None,
      user_role = ''ADMIN'', user_status = ''ACTIVE''\<rparr>"

definition sample_student_user :: user where
  "sample_student_user =
     \<lparr>user_id = 2, user_email = ''jane@example.com'',
      user_password = ''temp_password_will_be_set_on_approval'',
      user_firstName = ''Jane'', user_lastName = ''Doe'', user_phone = None,
      user_role = ''STUDENT'', user_status = ''INACTIVE''\<rparr>"

definition sample_registration :: "nat \<Rightarrow> string \<Rightarrow> registration" where
  "sample_registration i st =
     \<lparr>reg_id = i, reg_studentId = 1, reg_courseId = 1, reg_message = None, reg_status = st,
      reg_reviewedBy = None, reg_reviewedAt = None, reg_rejectionReason = None,
      reg_createdAt = 10\<rparr>"

definition sample_db :: database where
  "sample_db =
     \<lparr>users = [sample_admin, sample_student_user],
      students = [\<lparr>student_id = 1, student_userId = 2, student_profile = sample_profile\<rparr>],
      courses = [\<lparr>course_id = 1, course_title = ''Foundation'', course_category = ''Business'',
                  course_price = 100, course_currency = ''NGN''\<rparr>],
      modules = [\<lparr>module_id = 1, module_courseId = 1\<rparr>, \<lparr>module_id = 2, module_courseId = 1\<rparr>],
      lessons = [\<lparr>lesson_id = 1, lesson_moduleId = 1\<rparr>, \<lparr>lesson_id = 2, lesson_moduleId = 1\<rparr>,
                 \<lparr>lesson_id = 3, lesson_moduleId = 2\<rparr>],
      registrations = [sample_registration 1 ''REJECTED'', sample_registration 2 ''PENDING''],
      enrollments = [],
      progress = []\<rparr>"

definition sample_request :: "string option \<Rightarrow> 'b \<Rightarrow> 'b request" where
  "sample_request header payload =
     \<lparr>req_authorization = header, req_params = Map.empty(''id'' \<mapsto> 2, ''userId'' \<mapsto> 2),
      req_user = None, req_payload = payload\<rparr>"

definition sample_error :: js_error where
  "sample_error =
     \<lparr>err_class = OtherError False False None None, err_name = ''RangeError'',
      err_message = ''out of range'', err_stack = ''RangeError: out of range''\<rparr>"

definition sample_identity :: auth_user where
  "sample_identity =
     \<lparr>au_id = 1, au_email = ''admin@eckschool.com'', au_role = ''ADMIN'', au_status = ''ACTIVE''\<rparr>"

definition sample_action :: "string \<Rightarrow> string option \<Rightarrow> action_body request" where
  "sample_action a m =
     (sample_request (Some ''Bearer admin'') \<lparr>ab_action = a, ab_message = m\<rparr>)
       \<lparr>req_user := Some sample_identity\<rparr>"

definition sample_view :: "registration \<Rightarrow> reg_view" where
  "sample_view r =
     \<lparr>rv_registration = r,
      rv_student = \<lparr>student_id = 1, student_userId = 2, student_profile = sample_profile\<rparr>,
      rv_user = sample_student_user,
      rv_course = \<lparr>course_id = 1, course_title = ''Foundation'', course_category = ''Business'',
                   course_price = 100, course_currency = ''NGN''\<rparr>\<rparr>"

definition sample_body :: "string \<Rightarrow> registration_body" where
  "sample_body email =
     \<lparr>rb_firstName = ''Jane'', rb_lastName = ''Doe'', rb_email = email, rb_phone = None,
      rb_profile = sample_profile, rb_courseId = 1, rb_message = None\<rparr>"

definition sample_raw_query :: "rat field \<Rightarrow> rat field \<Rightarrow> string field \<Rightarrow> list_raw request" where
  "sample_raw_query p l k =
     sample_request (Some ''Bearer admin'')
       \<lparr>lq_page = p, lq_limit = l, lq_sortBy = k, lq_sortOrder = Absent, lq_q = Absent,
        lq_category = Absent, lq_status = Absent, lq_startDate = Absent, lq_endDate = Absent,
        lq_unknown = []\<rparr>"

definition sample_raw_action :: "string field \<Rightarrow> string field \<Rightarrow> action_raw request" where
  "sample_raw_action a m =
     sample_request (Some ''Bearer admin'') \<lparr>ar_action = a, ar_message = m, ar_unknown = []\<rparr>"

lemmas sample_defs =
  sample_db_def sample_env_def sample_admin_def sample_student_user_def
  sample_registration_def sample_request_def sample_profile_def sample_payload_def
  sample_identity_def sample_action_def sample_view_def sample_body_def
  sample_raw_action_def

section \<open>The error normalizer answers every error\<close>

lemma resolve_error_unrecognized:
  "unrecognized e \<Longrightarrow> \<exists>m. resolve_error e = (500, m, ''INTERNAL_ERROR'', None)"
  by (cases "err_class e") (auto simp: unrecognized_def resolve_error_def)

lemma resolve_error_categories:
  "(\<forall>sc c. err_class e \<noteq> CustomError sc c) \<Longrightarrow>
   (\<forall>sy b n c. err_class e \<noteq> OtherError sy b (Some n) c) \<Longrightarrow>
   fst (resolve_error e) \<in> {400, 401, 404, 409, 500, 503}"
  by (cases "err_class e") (auto simp: resolve_error_def Let_def split: option.splits)

lemma errorHandler_shape:
  "\<exists>m c rest.
      errorHandler node_env e =
        \<lparr>res_status = fst (resolve_error e),
         res_body = JObj ((''error'', JStr m) # (''code'', JStr c)
                          # (''statusCode'', JNum (of_int (fst (resolve_error e)))) # rest)\<rparr>
      \<and> (unrecognized e \<longrightarrow> c = ''INTERNAL_ERROR'')"
proof (cases "resolve_error e")
  case (fields sc m c d)
  have fallback: "unrecognized e \<longrightarrow> c = ''INTERNAL_ERROR''"
    using resolve_error_unrecognized [of e] fields by auto
  show ?thesis
    unfolding errorHandler_def fields using fallback by (simp add: Let_def)
qed

text \<open>
  Claim C5, as the code has it. The error normalizer does not answer every value. For an
  error object whose resolved status code carries a body (200..999 except 204, 205 and
  304) it sends that status with a JSON object that starts with the message (\<open>error\<close>), the
  code string (\<open>code\<close>) and the status code (\<open>statusCode\<close>). Every error that is neither a
  \<open>CustomError\<close> nor carries a \<open>statusCode\<close> property of its own resolves to one of 400, 401,
  404, 409, 500 and 503, so it is answered; in particular, when none of the handler's
  categories matches, the answer is 500 with code \<open>INTERNAL_ERROR\<close>. For a resolved status
  outside 100..999 the handler throws a \<open>RangeError\<close>, and for a thrown primitive it throws
  a \<open>TypeError\<close>; in both cases it sends nothing.
\<close>

theorem errorHandler_answers_valid_status:
  "(200 \<le> fst (resolve_error e) \<and> fst (resolve_error e) \<le> 999
      \<and> fst (resolve_error e) \<notin> {204, 205, 304} \<longrightarrow>
      (\<exists>m c rest.
          errorHandler_middleware node_env (ErrorObject e) =
            Inr \<lparr>sent_status = fst (resolve_error e),
                 sent_body = Some (JObj ((''error'', JStr m) # (''code'', JStr c)
                               # (''statusCode'', JNum (of_int (fst (resolve_error e))))
                               # rest))\<rparr>))
   \<and> ((\<forall>sc c. err_class e \<noteq> CustomError sc c)
       \<and> (\<forall>sy b n c. err_class e \<noteq> OtherError sy b (Some n) c) \<longrightarrow>
       fst (resolve_error e) \<in> {400, 401, 404, 409, 500, 503})
   \<and> (unrecognized e \<longrightarrow>
       (\<exists>m rest.
          errorHandler_middleware node_env (ErrorObject e) =
            Inr \<lparr>sent_status = 500,
                 sent_body = Some (JObj ((''error'', JStr m) # (''code'', JStr ''INTERNAL_ERROR'')
                               # (''statusCode'', JNum 500) # rest))\<rparr>))
   \<and> (fst (resolve_error e) < 100 \<or> 999 < fst (resolve_error e) \<longrightarrow>
       errorHandler_middleware node_env (ErrorObject e) = Inl invalid_status_code)
   \<and> errorHandler_middleware node_env (Primitive v) = Inl in_operator_error"
proof -
  obtain m c rest where shape:
      "errorHandler node_env e =
        \<lparr>res_status = fst (resolve_error e),
         res_body = JObj ((''error'', JStr m) # (''code'', JStr c)
                          # (''statusCode'', JNum (of_int (fst (resolve_error e)))) # rest)\<rparr>"
      "unrecognized e \<longrightarrow> c = ''INTERNAL_ERROR''"
    using errorHandler_shape [of node_env e] by blast
  have answered: "\<exists>m c rest.
          errorHandler_middleware node_env (ErrorObject e) =
            Inr \<lparr>sent_status = fst (resolve_error e),
                 sent_body = Some (JObj ((''error'', JStr m) # (''code'', JStr c)
                               # (''statusCode'', JNum (of_int (fst (resolve_error e))))
                               # rest))\<rparr>"
    if "200 \<le> fst (resolve_error e)" "fst (resolve_error e) \<le> 999"
       "fst (resolve_error e) \<notin> {204, 205, 304}"
    using that by (simp add: errorHandler_middleware_def res_status_json_def shape(1))
  have fallback: "\<exists>m rest.
          errorHandler_middleware node_env (ErrorObject e) =
            Inr \<lparr>sent_status = 500,
                 sent_body = Some (JObj ((''error'', JStr m) # (''code'', JStr ''INTERNAL_ERROR'')
                               # (''statusCode'', JNum 500) # rest))\<rparr>"
    if u: "unrecognized e"
  proof -
    have "fst (resolve_error e) = 500"
      using resolve_error_unrecognized [OF u] by auto
    then show ?thesis
      using shape u by (simp add: errorHandler_middleware_def res_status_json_def)
  qed
  have refused: "errorHandler_middleware node_env (ErrorObject e) = Inl invalid_status_code"
    if "fst (resolve_error e) < 100 \<or> 999 < fst (resolve_error e)"
    using that by (auto simp: errorHandler_middleware_def res_status_json_def shape(1))
  have prim: "errorHandler_middleware node_env (Primitive v) = Inl in_operator_error"
    by (simp add: errorHandler_middleware_def)
  show ?thesis
    using answered resolve_error_categories [of e] fallback refused prim by blast
qed

theorem errorHandler_answers_valid_status_witness:
  "unrecognized sample_error
   \<and> errorHandler_middleware (Some ''production'') (ErrorObject sample_error)
      = Inr \<lparr>sent_status = 500,
             sent_body = Some (JObj [(''error'', JStr ''Something went wrong. Please try again later.''),
                                     (''code'', JStr ''INTERNAL_ERROR''),
                                     (''statusCode'', JNum 500)])\<rparr>
   \<and> fst (resolve_error (mkCustomError ''Course not found'' 404 ''COURSE_NOT_FOUND'')) = 404
   \<and> errorHandler_middleware (Some ''production'')
        (ErrorObject (mkCustomError ''Course not found'' 404 ''COURSE_NOT_FOUND''))
      = Inr \<lparr>sent_status = 404,
             sent_body = Some (JObj [(''error'', JStr ''Course not found''),
                                     (''code'', JStr ''COURSE_NOT_FOUND''),
                                     (''statusCode'', JNum 404)])\<rparr>"
  using errorHandler_answers_valid_status [of sample_error "Some ''production''"]
        errorHandler_answers_valid_status
          [of "mkCustomError ''Course not found'' 404 ''COURSE_NOT_FOUND''" "Some ''production''"]
  by (simp add: unrecognized_def sample_error_def errorHandler_middleware_def
        res_status_json_def errorHandler_def resolve_error_def mkCustomError_def)

text \<open>
  The claim as the specification states it fails at a \<open>CustomError\<close> constructed with status
  code 1000: the handler throws instead of answering.
\<close>

theorem errorHandler_not_total:
  "errorHandler_middleware (Some ''production'')
     (ErrorObject (mkCustomError ''Too far'' 1000 ''OUT_OF_RANGE''))
   = Inl invalid_status_code"
  by (simp add: errorHandler_middleware_def res_status_json_def errorHandler_def
        resolve_error_def mkCustomError_def)



section \<open>The authentication middleware and the role gates\<close>

text \<open>
  Claim C4, as the code has it. The authentication middleware answers 401 when the
  \<open>Authorization\<close> header is missing or does not start with \<open>Bearer \<close>; when the token has
  expired it answers 401 with the expiry message, and when the token is invalid it answers
  401 with another message; when the token is valid it answers 401 if no user has the
  token's identifier and 401 if that user's status is not \<open>ACTIVE\<close>; and when the user is
  active it attaches the user's id, email, role and status to the request and passes the
  request on. There is one more state: when verifying the token throws another error (the
  signing secret is not configured) or the user lookup is rejected, the middleware answers
  500 \<open>Authentication failed\<close>. Every request ends in one of these states.
\<close>

theorem authenticateUser_state_machine:
  "((req_authorization req = None
      \<or> (\<exists>h. req_authorization req = Some h \<and> \<not> prefix ''Bearer '' h)) \<longrightarrow>
      (\<exists>r. authenticateUser ev db req = Respond r \<and> res_status r = 401))
   \<and> (\<forall>h. req_authorization req = Some h \<and> prefix ''Bearer '' h \<longrightarrow>
        (verifyToken ev (drop 7 h) = JwtThrown TokenExpiredError \<longrightarrow>
           authenticateUser ev db req
             = Respond (auth_reply 401 ''Token expired''
                          ''Your session has expired. Please log in again.''))
        \<and> (verifyToken ev (drop 7 h) = JwtThrown JsonWebTokenError \<longrightarrow>
           authenticateUser ev db req
             = Respond (auth_reply 401 ''Invalid token'' ''Authentication token is invalid''))
        \<and> (\<forall>e. verifyToken ev (drop 7 h) = ErrorThrown e \<longrightarrow>
             authenticateUser ev db req
               = Respond (auth_reply 500 ''Authentication failed''
                            ''An error occurred during authentication''))
        \<and> (\<forall>decoded. verifyToken ev (drop 7 h) = Decoded decoded \<longrightarrow>
             (\<forall>e. user_findUnique ev db (jwt_userId decoded) = Inl e \<longrightarrow>
                authenticateUser ev db req
                  = Respond (auth_reply 500 ''Authentication failed''
                               ''An error occurred during authentication''))
             \<and> (user_findUnique ev db (jwt_userId decoded) = Inr None \<longrightarrow>
                (\<exists>r. authenticateUser ev db req = Respond r \<and> res_status r = 401))
             \<and> (\<forall>u. user_findUnique ev db (jwt_userId decoded) = Inr (Some u) \<longrightarrow>
                  (user_status u \<noteq> ''ACTIVE'' \<longrightarrow>
                     (\<exists>r. authenticateUser ev db req = Respond r \<and> res_status r = 401))
                  \<and> (user_status u = ''ACTIVE'' \<longrightarrow>
                     authenticateUser ev db req
                       = Next (req\<lparr>req_user :=
                                 Some \<lparr>au_id = user_id u, au_email = user_email u,
                                       au_role = user_role u, au_status = user_status u\<rparr>\<rparr>)))))
   \<and> auth_reply 401 ''Token expired'' ''Your session has expired. Please log in again.''
       \<noteq> auth_reply 401 ''Invalid token'' ''Authentication token is invalid''
   \<and> ((\<exists>r. authenticateUser ev db req = Respond r \<and> res_status r = 401)
       \<or> authenticateUser ev db req
            = Respond (auth_reply 500 ''Authentication failed''
                         ''An error occurred during authentication'')
       \<or> (\<exists>u. authenticateUser ev db req = Next (req\<lparr>req_user := Some u\<rparr>)))"
proof -
  have listed: "(\<exists>r. authenticateUser ev db req = Respond r \<and> res_status r = 401)
       \<or> authenticateUser ev db req
            = Respond (auth_reply 500 ''Authentication failed''
                         ''An error occurred during authentication'')
       \<or> (\<exists>u. authenticateUser ev db req = Next (req\<lparr>req_user := Some u\<rparr>))"
    by (auto simp: authenticateUser_def auth_reply_def
             split: option.splits sum.splits verify_result.splits jwt_failure.splits)
  show ?thesis
    using listed by (auto simp: authenticateUser_def auth_reply_def)
qed

theorem authenticateUser_state_machine_witness:
  "authenticateUser sample_env sample_db (sample_request None ())
     = Respond (auth_reply 401 ''Authentication required''
                  ''Please provide a valid authentication token'')
   \<and> authenticateUser sample_env sample_db (sample_request (Some ''Basic admin'') ())
     = Respond (auth_reply 401 ''Authentication required''
                  ''Please provide a valid authentication token'')
   \<and> authenticateUser sample_env sample_db (sample_request (Some ''Bearer old'') ())
     = Respond (auth_reply 401 ''Token expired''
                  ''Your session has expired. Please log in again.'')
   \<and> authenticateUser sample_env sample_db (sample_request (Some ''Bearer forged'') ())
     = Respond (auth_reply 401 ''Invalid token'' ''Authentication token is invalid'')
   \<and> authenticateUser sample_env sample_db (sample_request (Some ''Bearer ghost'') ())
     = Respond (auth_reply 401 ''Invalid token'' ''User not found'')
   \<and> authenticateUser sample_env sample_db (sample_request (Some ''Bearer student'') ())
     = Respond (auth_reply 401 ''Account inactive'' ''Your account has been deactivated'')
   \<and> authenticateUser sample_env sample_db (sample_request (Some ''Bearer admin'') ())
     = Next ((sample_request (Some ''Bearer admin'') ())\<lparr>req_user := Some sample_identity\<rparr>)
   \<and> authenticateUser (sample_env\<lparr>auth_lookup_fault := Some inconsistent_result\<rparr>) sample_db
        (sample_request (Some ''Bearer admin'') ())
     = Respond (auth_reply 500 ''Authentication failed''
                  ''An error occurred during authentication'')"
  using authenticateUser_state_machine [of "sample_request None ()" sample_env sample_db]
        authenticateUser_state_machine
          [of "sample_request (Some ''Bearer admin'') ()" sample_env sample_db]
  by (simp add: authenticateUser_def verifyToken_def user_findUnique_def sample_defs)

text \<open>
  The claim as the specification states it fails when no signing secret is configured: a
  request with a bearer token is then answered 500, which is none of the claim's states.
\<close>

theorem authenticateUser_unlisted_state:
  "authenticateUser (sample_env\<lparr>JWT_SECRET := None\<rparr>) sample_db
     (sample_request (Some ''Bearer admin'') ())
   = Respond (auth_reply 500 ''Authentication failed''
                ''An error occurred during authentication'')"
  by (simp add: authenticateUser_def verifyToken_def sample_defs)

text \<open>
  Claim C9. The role gates depend on the attached identity (and, for the second, the
  route parameter) only. \<open>requireRole roles\<close> answers 401 when no identity is attached,
  answers 403 when the identity's role is not in \<open>roles\<close>, and otherwise passes the request
  on unchanged. \<open>requireSelfOrAdmin\<close> answers 401 when no identity is attached; with an
  identity, it passes the request on unchanged exactly when the role is \<open>ADMIN\<close> or the
  identity's id is the route parameter, and answers 403 otherwise.
\<close>

theorem role_gates:
  "(req_user req = None \<longrightarrow>
      (\<exists>r. requireRole roles req = Respond r \<and> res_status r = 401)
      \<and> (\<exists>r. requireSelfOrAdmin userIdParam req = Respond r \<and> res_status r = 401))
   \<and> (\<forall>u. req_user req = Some u \<longrightarrow>
        (au_role u \<in> set roles \<longrightarrow> requireRole roles req = Next req)
        \<and> (au_role u \<notin> set roles \<longrightarrow>
             (\<exists>r. requireRole roles req = Respond r \<and> res_status r = 403))
        \<and> (au_role u = ''ADMIN'' \<or> req_params req userIdParam = Some (au_id u) \<longrightarrow>
             requireSelfOrAdmin userIdParam req = Next req)
        \<and> (\<not> (au_role u = ''ADMIN'' \<or> req_params req userIdParam = Some (au_id u)) \<longrightarrow>
             (\<exists>r. requireSelfOrAdmin userIdParam req = Respond r \<and> res_status r = 403)))"
  by (auto simp: requireRole_def requireSelfOrAdmin_def auth_reply_def Let_def)

theorem role_gates_witness:
  "requireRole [''ADMIN''] (sample_request None ())
     = Respond (auth_reply 401 ''Authentication required''
                  ''You must be logged in to access this resource'')
   \<and> requireRole [''ADMIN''] (sample_action ''approve'' None)
     = Next (sample_action ''approve'' None)
   \<and> requireRole [''STUDENT''] (sample_action ''approve'' None)
     = Respond (auth_reply 403 ''Insufficient permissions''
                  ''This action requires one of the following roles: STUDENT'')
   \<and> requireSelfOrAdmin ''userId'' (sample_action ''approve'' None)
     = Next (sample_action ''approve'' None)
   \<and> requireSelfOrAdmin ''userId''
        ((sample_action ''approve'' None)
           \<lparr>req_user := Some (sample_identity\<lparr>au_role := ''STUDENT''\<rparr>)\<rparr>)
     = Respond (auth_reply 403 ''Access denied'' ''You can only access your own data'')
   \<and> requireSelfOrAdmin ''userId''
        ((sample_action ''approve'' None)
           \<lparr>req_user := Some (sample_identity\<lparr>au_id := 2, au_role := ''STUDENT''\<rparr>)\<rparr>)
     = Next ((sample_action ''approve'' None)
           \<lparr>req_user := Some (sample_identity\<lparr>au_id := 2, au_role := ''STUDENT''\<rparr>)\<rparr>)"
  using role_gates [of "sample_request None ()" "[''ADMIN'']" "''userId''"]
        role_gates [of "sample_action ''approve'' None" "[''ADMIN'']" "''userId''"]
  by (simp add: requireRole_def requireSelfOrAdmin_def sample_defs)

section \<open>Facts about rows and lookups\<close>

lemma find_update_first:
  "(\<And>x. P x \<Longrightarrow> P (f x)) \<Longrightarrow> find P (update_first P f xs) = map_option f (find P xs)"
  by (induction xs) auto

lemma find_Some_holds: "find P xs = Some x \<Longrightarrow> P x"
  by (induction xs) (auto split: if_splits)

lemma find_by_key:
  assumes "find (\<lambda>x. g x = k) xs = Some y"
  shows "find (\<lambda>x. g x = g y) xs = Some y"
proof -
  have "g y = k" using find_Some_holds [OF assms] .
  then show ?thesis using assms by simp
qed

lemma errorHandler_custom:
  "res_status (errorHandler node_env (mkCustomError msg sc c)) = sc
   \<and> jfield (res_body (errorHandler node_env (mkCustomError msg sc c))) ''code'' = Some (JStr c)"
  by (simp add: errorHandler_def resolve_error_def mkCustomError_def Let_def)

lemma asyncHandler_custom:
  assumes "200 \<le> sc" and "sc \<le> 999" and "sc \<notin> {204, 205, 304}"
  shows "asyncHandler ev (Inl (mkCustomError msg sc c), db)
           = (Replied (errorHandler (NODE_ENV ev) (mkCustomError msg sc c)), db)"
proof -
  have "res_status (errorHandler (NODE_ENV ev) (mkCustomError msg sc c)) = sc"
    by (simp add: errorHandler_custom)
  then show ?thesis
    using assms
    by (simp add: asyncHandler_def errorHandler_middleware_def res_status_json_def)
qed

lemma include_relations_cong:
  "students db' = students db \<Longrightarrow> users db' = users db \<Longrightarrow> courses db' = courses db \<Longrightarrow>
   reg_studentId r' = reg_studentId r \<Longrightarrow> reg_courseId r' = reg_courseId r \<Longrightarrow>
   include_relations db r = Inr v \<Longrightarrow>
   include_relations db' r' = Inr (v\<lparr>rv_registration := r'\<rparr>)"
  by (auto simp: include_relations_def split: option.splits)

lemma include_relations_fields:
  "include_relations db r = Inr v \<Longrightarrow>
     rv_registration v = r
     \<and> student_id (rv_student v) = reg_studentId r
     \<and> course_id (rv_course v) = reg_courseId r
     \<and> find (\<lambda>x. user_id x = user_id (rv_user v)) (users db) = Some (rv_user v)"
  by (auto simp: include_relations_def split: option.splits
           dest: find_Some_holds find_by_key)

lemma sample_include:
  "include_relations sample_db (sample_registration i st)
     = Inr (sample_view (sample_registration i st))"
  by (simp add: include_relations_def sample_defs)

lemma sum_indicator_absent:
  "k \<notin> g ` set ms \<Longrightarrow> sum_list (map (\<lambda>m. if g m = k then (1::nat) else 0) (filter A ms)) = 0"
  by (induction ms) auto

lemma sum_indicator_first:
  "distinct (map g ms) \<Longrightarrow>
   sum_list (map (\<lambda>m. if g m = k then (1::nat) else 0) (filter A ms))
     = (if (case find (\<lambda>m. g m = k) ms of None \<Rightarrow> False | Some m \<Rightarrow> A m) then 1 else 0)"
proof (induction ms)
  case Nil
  then show ?case by simp
next
  case (Cons m ms)
  show ?case
  proof (cases "g m = k")
    case True
    then have "k \<notin> g ` set ms" using Cons.prems by auto
    then show ?thesis using True by (simp add: sum_indicator_absent)
  next
    case False
    have ih: "sum_list (map (\<lambda>m. if g m = k then (1::nat) else 0) (filter A ms))
       = (if (case find (\<lambda>m. g m = k) ms of None \<Rightarrow> False | Some m \<Rightarrow> A m) then 1 else 0)"
      using Cons by simp
    have l: "sum_list (map (\<lambda>m. if g m = k then (1::nat) else 0) (filter A (m # ms)))
       = sum_list (map (\<lambda>m. if g m = k then (1::nat) else 0) (filter A ms))"
      using False by simp
    have r: "find (\<lambda>m. g m = k) (m # ms) = find (\<lambda>m. g m = k) ms"
      using False by simp
    show ?thesis unfolding l r by (rule ih)
  qed
qed

text \<open>
  With module identifiers unique, the count the handler queries is the number of lessons
  in the course's modules.
\<close>

lemma lesson_count_by_modules:
  assumes "distinct (map module_id (modules db))"
  shows "lesson_count db cid = lessons_in_course_modules db cid"
proof -
  have "length (filter (\<lambda>l. case find (\<lambda>m. module_id m = lesson_moduleId l) (modules db) of
                             None \<Rightarrow> False | Some m \<Rightarrow> module_courseId m = cid) ls)
        = sum_list (map (\<lambda>m. length (filter (\<lambda>l. lesson_moduleId l = module_id m) ls))
                     (filter (\<lambda>m. module_courseId m = cid) (modules db)))"
    for ls :: "lesson list"
  proof (induction ls)
    case Nil
    then show ?case by simp
  next
    case (Cons l ls)
    have split: "(\<lambda>m. length (filter (\<lambda>l. lesson_moduleId l = module_id m) (l # ls)))
        = (\<lambda>m. (if module_id m = lesson_moduleId l then 1 else 0)
                + length (filter (\<lambda>l. lesson_moduleId l = module_id m) ls))"
      by (rule ext) auto
    show ?case
      unfolding split
      using Cons sum_indicator_first [OF assms, of "lesson_moduleId l" "\<lambda>m. module_courseId m = cid"]
      by (simp add: sum_list_addf)
  qed
  then show ?thesis by (simp add: lesson_count_def lessons_in_course_modules_def)
qed

section \<open>Approving and rejecting a registration\<close>

lemma approve_effects_fields:
  "users (approve_effects db1 v)
     = (if user_status (rv_user v) = ''INACTIVE''
        then update_first (\<lambda>x. user_id x = user_id (rv_user v))
               (\<lambda>x. x\<lparr>user_status := ''ACTIVE''\<rparr>) (users db1)
        else users db1)"
  "registrations (approve_effects db1 v) = registrations db1"
  "enrollments (approve_effects db1 v)
     = enrollments db1 @
       [\<lparr>enr_id = fresh_id (map enr_id (enrollments db1)),
         enr_studentId = student_id (rv_student v), enr_courseId = course_id (rv_course v),
         enr_status = ''ACTIVE'', enr_paymentStatus = ''PENDING''\<rparr>]"
  "progress (approve_effects db1 v)
     = progress db1 @
       [\<lparr>sp_id = fresh_id (map sp_id (progress db1)),
         sp_studentId = student_id (rv_student v), sp_courseId = course_id (rv_course v),
         sp_totalLessons = lesson_count db1 (course_id (rv_course v))\<rparr>]"
  "students (approve_effects db1 v) = students db1"
  "courses (approve_effects db1 v) = courses db1"
  "modules (approve_effects db1 v) = modules db1"
  "lessons (approve_effects db1 v) = lessons db1"
  by (simp_all add: approve_effects_def Let_def lesson_count_def)

text \<open>What the handler does to a pending registration, for either action.\<close>

lemma patch_pending:
  assumes "req_params req ''id'' = Some i"
    and "find (\<lambda>r. reg_id r = i) (registrations db) = Some r0"
    and "include_relations db r0 = Inr v"
    and "reg_status r0 = ''PENDING''"
    and "req_user req = Some u"
  shows "patch_registration_action ev db req =
           (let r1 = updateData ev u (req_payload req) r0;
                db1 = db\<lparr>registrations := update_first (\<lambda>r. reg_id r = i)
                          (updateData ev u (req_payload req)) (registrations db)\<rparr>
            in (Inr (200, v\<lparr>rv_registration := r1\<rparr>),
                if ab_action (req_payload req) = ''approve''
                then approve_effects db1 (v\<lparr>rv_registration := r1\<rparr>) else db1))"
proof -
  let ?r1 = "updateData ev u (req_payload req) r0"
  let ?db1 = "db\<lparr>registrations := update_first (\<lambda>r. reg_id r = i)
                          (updateData ev u (req_payload req)) (registrations db)\<rparr>"
  have same: "rv_registration v = r0"
    using assms(3) include_relations_fields by blast
  have incl: "include_relations ?db1 ?r1 = Inr (v\<lparr>rv_registration := ?r1\<rparr>)"
    by (rule include_relations_cong [OF _ _ _ _ _ assms(3)]) (simp_all add: updateData_def)
  show ?thesis
    using assms same incl by (simp add: patch_registration_action_def Let_def)
qed

text \<open>
  Claim C10. When the action request targets an existing registration (one that the
  lookup returns with its student, user and course) whose status is not \<open>PENDING\<close>, the
  handler throws the error with status 400 and code \<open>REGISTRATION_PROCESSED\<close>, which the
  error normalizer turns into a 400 response with that code, and the database is the one
  the handler started from.
\<close>

theorem processed_registration_rejected:
  assumes "req_params req ''id'' = Some i"
    and "find (\<lambda>r. reg_id r = i) (registrations db) = Some r0"
    and "include_relations db r0 = Inr v"
    and "reg_status r0 \<noteq> ''PENDING''"
  shows "patch_registration_action ev db req
           = (Inl (mkCustomError ''Registration has already been processed'' 400
                     ''REGISTRATION_PROCESSED''), db)
         \<and> (\<exists>r. asyncHandler ev (patch_registration_action ev db req) = (Replied r, db)
                \<and> res_status r = 400
                \<and> jfield (res_body r) ''code'' = Some (JStr ''REGISTRATION_PROCESSED''))"
proof -
  have same: "rv_registration v = r0"
    using assms(3) include_relations_fields by blast
  have thrown: "patch_registration_action ev db req
           = (Inl (mkCustomError ''Registration has already been processed'' 400
                     ''REGISTRATION_PROCESSED''), db)"
    using assms same by (simp add: patch_registration_action_def)
  show ?thesis
    unfolding thrown by (simp add: asyncHandler_custom errorHandler_custom)
qed

theorem processed_registration_rejected_witness:
  "find (\<lambda>r. reg_id r = 1) (registrations sample_db) = Some (sample_registration 1 ''REJECTED'')
   \<and> patch_registration_action sample_env sample_db
        ((sample_action ''approve'' None)\<lparr>req_params := Map.empty(''id'' \<mapsto> 1)\<rparr>)
      = (Inl (mkCustomError ''Registration has already been processed'' 400
                ''REGISTRATION_PROCESSED''), sample_db)"
proof -
  have h1: "req_params ((sample_action ''approve'' None)\<lparr>req_params := Map.empty(''id'' \<mapsto> 1)\<rparr>)
              ''id'' = Some 1"
    by simp
  have h2: "find (\<lambda>r. reg_id r = 1) (registrations sample_db)
              = Some (sample_registration 1 ''REJECTED'')"
    by (simp add: sample_defs)
  have h4: "reg_status (sample_registration 1 ''REJECTED'') \<noteq> ''PENDING''"
    by (simp add: sample_defs)
  show ?thesis
    using h2 processed_registration_rejected [OF h1 h2 sample_include h4, of sample_env]
    by simp
qed

text \<open>
  Claim C1. When the approve action reaches the handler for a registration whose status
  is \<open>PENDING\<close>, the handler succeeds; afterwards the registration's status is \<open>APPROVED\<close>;
  the linked user's status is \<open>ACTIVE\<close> if it was \<open>INACTIVE\<close> and is what it was otherwise
  (the user table is then untouched); the enrollment table has exactly one more row, for
  the registration's student and course; and the progress table has exactly one more row,
  for the same student and course, whose \<open>totalLessons\<close> is the number of lessons of the
  course's modules.
\<close>

theorem approve_pending_registration:
  assumes "req_params req ''id'' = Some i"
    and "find (\<lambda>r. reg_id r = i) (registrations db) = Some r0"
    and "include_relations db r0 = Inr v"
    and "reg_status r0 = ''PENDING''"
    and "req_user req = Some u"
    and "ab_action (req_payload req) = ''approve''"
  shows "\<exists>view db'.
     patch_registration_action ev db req = (Inr (200, view), db')
     \<and> map_option reg_status (find (\<lambda>r. reg_id r = i) (registrations db')) = Some ''APPROVED''
     \<and> find (\<lambda>x. user_id x = user_id (rv_user v)) (users db')
         = Some ((rv_user v)\<lparr>user_status :=
                    (if user_status (rv_user v) = ''INACTIVE'' then ''ACTIVE''
                     else user_status (rv_user v))\<rparr>)
     \<and> (user_status (rv_user v) \<noteq> ''INACTIVE'' \<longrightarrow> users db' = users db)
     \<and> (\<exists>e. enrollments db' = enrollments db @ [e]
            \<and> enr_studentId e = reg_studentId r0 \<and> enr_courseId e = reg_courseId r0)
     \<and> (\<exists>p. progress db' = progress db @ [p]
            \<and> sp_studentId p = reg_studentId r0 \<and> sp_courseId p = reg_courseId r0
            \<and> sp_totalLessons p = lesson_count db (reg_courseId r0)
            \<and> (distinct (map module_id (modules db)) \<longrightarrow>
                 sp_totalLessons p = lessons_in_course_modules db (reg_courseId r0)))"
proof -
  let ?upd = "updateData ev u (req_payload req)"
  let ?db1 = "db\<lparr>registrations := update_first (\<lambda>r. reg_id r = i) ?upd (registrations db)\<rparr>"
  let ?view = "v\<lparr>rv_registration := ?upd r0\<rparr>"
  let ?db' = "approve_effects ?db1 ?view"
  have run: "patch_registration_action ev db req = (Inr (200, ?view), ?db')"
    using patch_pending [OF assms(1-5), of ev] assms(6) by (simp add: Let_def)
  have fields: "student_id (rv_student v) = reg_studentId r0"
      "course_id (rv_course v) = reg_courseId r0"
      "find (\<lambda>x. user_id x = user_id (rv_user v)) (users db) = Some (rv_user v)"
    using include_relations_fields [OF assms(3)] by simp_all
  have reg: "map_option reg_status (find (\<lambda>r. reg_id r = i) (registrations ?db')) = Some ''APPROVED''"
    using assms(2,6)
    by (simp add: approve_effects_fields find_update_first updateData_def)
  have usr: "find (\<lambda>x. user_id x = user_id (rv_user v)) (users ?db')
         = Some ((rv_user v)\<lparr>user_status :=
                    (if user_status (rv_user v) = ''INACTIVE'' then ''ACTIVE''
                     else user_status (rv_user v))\<rparr>)"
    using fields(3) by (simp add: approve_effects_fields find_update_first)
  have unchanged: "user_status (rv_user v) \<noteq> ''INACTIVE'' \<longrightarrow> users ?db' = users db"
    by (simp add: approve_effects_fields)
  have enr: "\<exists>e. enrollments ?db' = enrollments db @ [e]
            \<and> enr_studentId e = reg_studentId r0 \<and> enr_courseId e = reg_courseId r0"
    using fields(1,2) by (simp add: approve_effects_fields)
  have cnt: "lesson_count ?db1 (reg_courseId r0) = lesson_count db (reg_courseId r0)"
    by (simp add: lesson_count_def)
  have prg: "\<exists>p. progress ?db' = progress db @ [p]
            \<and> sp_studentId p = reg_studentId r0 \<and> sp_courseId p = reg_courseId r0
            \<and> sp_totalLessons p = lesson_count db (reg_courseId r0)
            \<and> (distinct (map module_id (modules db)) \<longrightarrow>
                 sp_totalLessons p = lessons_in_course_modules db (reg_courseId r0))"
    using fields(1,2) cnt lesson_count_by_modules [of db "reg_courseId r0"]
    by (simp add: approve_effects_fields)
  show ?thesis
    using run reg usr unchanged enr prg by blast
qed

theorem approve_pending_registration_witness:
  "find (\<lambda>r. reg_id r = 2) (registrations sample_db) = Some (sample_registration 2 ''PENDING'')
   \<and> map user_status (users sample_db) = [''ACTIVE'', ''INACTIVE'']
   \<and> map user_status
        (users (snd (patch_registration_action sample_env sample_db
                       (sample_action ''approve'' None))))
      = [''ACTIVE'', ''ACTIVE'']
   \<and> map reg_status
        (registrations (snd (patch_registration_action sample_env sample_db
                       (sample_action ''approve'' None))))
      = [''REJECTED'', ''APPROVED'']
   \<and> map sp_totalLessons
        (progress (snd (patch_registration_action sample_env sample_db
                       (sample_action ''approve'' None))))
      = [3]
   \<and> length (enrollments (snd (patch_registration_action sample_env sample_db
                       (sample_action ''approve'' None)))) = 1"
proof -
  have h1: "req_params (sample_action ''approve'' None) ''id'' = Some 2"
    by (simp add: sample_defs)
  have h2: "find (\<lambda>r. reg_id r = 2) (registrations sample_db)
              = Some (sample_registration 2 ''PENDING'')"
    by (simp add: sample_defs)
  have h4: "reg_status (sample_registration 2 ''PENDING'') = ''PENDING''"
    by (simp add: sample_defs)
  have h5: "req_user (sample_action ''approve'' None) = Some sample_identity"
    by (simp add: sample_defs)
  have h6: "ab_action (req_payload (sample_action ''approve'' None)) = ''approve''"
    by (simp add: sample_defs)
  from approve_pending_registration [OF h1 h2 sample_include h4 h5 h6, of sample_env]
  obtain view db' where
    run: "patch_registration_action sample_env sample_db (sample_action ''approve'' None)
            = (Inr (200, view), db')"
    by blast
  have eval: "snd (patch_registration_action sample_env sample_db (sample_action ''approve'' None))
     = approve_effects
         (sample_db\<lparr>registrations :=
            [sample_registration 1 ''REJECTED'',
             updateData sample_env sample_identity \<lparr>ab_action = ''approve'', ab_message = None\<rparr>
               (sample_registration 2 ''PENDING'')]\<rparr>)
         ((sample_view (sample_registration 2 ''PENDING''))
            \<lparr>rv_registration :=
               updateData sample_env sample_identity
                 \<lparr>ab_action = ''approve'', ab_message = None\<rparr>
                 (sample_registration 2 ''PENDING'')\<rparr>)"
    using patch_pending [OF h1 h2 sample_include h4 h5, of sample_env] h6
    by (simp add: Let_def sample_defs)
  show ?thesis
    unfolding eval using h2 run
    by (simp add: approve_effects_fields updateData_def lesson_count_def sample_defs)
qed

lemma requireAdmin_Next:
  "requireAdmin req = Next req' \<Longrightarrow> req' = req \<and> (\<exists>u. req_user req = Some u)"
  by (auto simp: requireAdmin_def requireRole_def split: option.splits if_splits)

lemma action_route_after_auth:
  assumes "authenticateUser ev db req0 = Next req" and "requireAdmin req = Next req"
  shows "registrations_action_route ev db req0
           = (case validate registrationActionValidation req of
                Respond r \<Rightarrow> (Replied r, db)
              | Next req3 \<Rightarrow> asyncHandler ev (patch_registration_action ev db req3))"
  using assms by (simp add: registrations_action_route_def)

lemma reject_without_reason:
  assumes "ar_action raw = Present ''reject''"
    and "ar_message raw = Absent \<or> (\<exists>m. ar_message raw = Present m \<and> length m < 10)"
  shows "\<exists>errs. registrationActionValidation raw = Inl errs
               \<and> (ferr ''message'' ''any.required'' \<in> set errs
                   \<or> ferr ''message'' ''string.empty'' \<in> set errs
                   \<or> ferr ''message'' ''string.min'' \<in> set errs)"
proof -
  define rules where
    "rules = plain_string\<lparr>sr_min := Some 10, sr_max := Some 500, sr_required := True\<rparr>"
  define errs where
    "errs = joi_string ''action''
              (plain_string\<lparr>sr_required := True, sr_valid := Some [''approve'', ''reject'']\<rparr>)
              (ar_action raw)
            @ joi_string ''message'' rules (ar_message raw)
            @ unknown_keys (ar_unknown raw)"
  have about_message:
    "ferr ''message'' ''any.required'' \<in> set (joi_string ''message'' rules (ar_message raw))
     \<or> ferr ''message'' ''string.empty'' \<in> set (joi_string ''message'' rules (ar_message raw))
     \<or> ferr ''message'' ''string.min'' \<in> set (joi_string ''message'' rules (ar_message raw))"
    using assms(2) by (auto simp: joi_string_def rules_def plain_string_def)
  then have mem: "ferr ''message'' ''any.required'' \<in> set errs
                   \<or> ferr ''message'' ''string.empty'' \<in> set errs
                   \<or> ferr ''message'' ''string.min'' \<in> set errs"
    by (auto simp: errs_def)
  then have "errs \<noteq> []" by auto
  then obtain e es where "errs = e # es" by (cases errs) auto
  then have "registrationActionValidation raw = Inl errs"
    using assms(1) by (simp add: registrationActionValidation_def Let_def errs_def rules_def)
  then show ?thesis using mem by blast
qed

lemma reject_with_reason:
  assumes "ar_action raw = Present ''reject''"
    and "ar_message raw = Present m" and "10 \<le> length m" and "length m \<le> 500"
    and "ar_unknown raw = []"
  shows "registrationActionValidation raw = Inr \<lparr>ab_action = ''reject'', ab_message = Some m\<rparr>"
  using assms
  by (auto simp: registrationActionValidation_def joi_string_def plain_string_def Let_def
                 unknown_keys_def)

lemma approve_without_message:
  assumes "ar_action raw = Present ''approve''" and "ar_message raw = Absent"
    and "ar_unknown raw = []"
  shows "registrationActionValidation raw = Inr \<lparr>ab_action = ''approve'', ab_message = None\<rparr>"
  using assms
  by (auto simp: registrationActionValidation_def joi_string_def plain_string_def Let_def
                 unknown_keys_def)

lemma sample_authenticated:
  "authenticateUser sample_env sample_db (sample_request (Some ''Bearer admin'') payload)
     = Next ((sample_request (Some ''Bearer admin'') payload)\<lparr>req_user := Some sample_identity\<rparr>)"
  "requireAdmin ((sample_request (Some ''Bearer admin'') payload)\<lparr>req_user := Some sample_identity\<rparr>)
     = Next ((sample_request (Some ''Bearer admin'') payload)\<lparr>req_user := Some sample_identity\<rparr>)"
  by (simp_all add: authenticateUser_def verifyToken_def user_findUnique_def requireAdmin_def
        requireRole_def sample_defs)

text \<open>
  Claim C7. For an authenticated administrator's request with action \<open>reject\<close>: when
  the message is absent or shorter than 10 characters, the route answers 400 with the
  validation failure; when the message has between 10 and 500 characters (and the body
  has no other keys) and the targeted registration is pending, the route succeeds and the
  registration is stored as \<open>REJECTED\<close> with that message as its \<open>rejectionReason\<close>. With
  action \<open>approve\<close> a body without message passes validation: the message is mandatory
  only for \<open>reject\<close>.
\<close>

theorem rejection_requires_reason:
  assumes "authenticateUser ev db req0 = Next req" and "requireAdmin req = Next req"
  shows
  "(ar_action (req_payload req) = Present ''reject''
      \<and> (ar_message (req_payload req) = Absent
          \<or> (\<exists>m. ar_message (req_payload req) = Present m \<and> length m < 10)) \<longrightarrow>
      (\<exists>r. registrations_action_route ev db req0 = (Replied r, db) \<and> res_status r = 400
           \<and> jfield (res_body r) ''error'' = Some (JStr ''Validation failed'')))
   \<and> (\<forall>m i r0 v.
        ar_action (req_payload req) = Present ''reject''
        \<and> ar_message (req_payload req) = Present m \<and> 10 \<le> length m \<and> length m \<le> 500
        \<and> ar_unknown (req_payload req) = []
        \<and> req_params req ''id'' = Some i
        \<and> find (\<lambda>r. reg_id r = i) (registrations db) = Some r0
        \<and> include_relations db r0 = Inr v \<and> reg_status r0 = ''PENDING'' \<longrightarrow>
        (\<exists>view db'. registrations_action_route ev db req0 = (Succeeded 200 view, db')
           \<and> reg_status (rv_registration view) = ''REJECTED''
           \<and> reg_rejectionReason (rv_registration view) = Some m
           \<and> find (\<lambda>r. reg_id r = i) (registrations db') = Some (rv_registration view)))
   \<and> (ar_action (req_payload req) = Present ''approve''
        \<and> ar_message (req_payload req) = Absent \<and> ar_unknown (req_payload req) = [] \<longrightarrow>
        validate registrationActionValidation req
          = Next (with_payload req \<lparr>ab_action = ''approve'', ab_message = None\<rparr>))"
proof -
  note route = action_route_after_auth [OF assms]
  obtain u where u: "req_user req = Some u"
    using requireAdmin_Next [OF assms(2)] by blast
  have short: "\<exists>r. registrations_action_route ev db req0 = (Replied r, db) \<and> res_status r = 400
           \<and> jfield (res_body r) ''error'' = Some (JStr ''Validation failed'')"
    if rej: "ar_action (req_payload req) = Present ''reject''"
      and msg: "ar_message (req_payload req) = Absent
          \<or> (\<exists>m. ar_message (req_payload req) = Present m \<and> length m < 10)"
  proof -
    obtain errs where "registrationActionValidation (req_payload req) = Inl errs"
      using reject_without_reason [OF rej msg] by blast
    then show ?thesis unfolding route by (simp add: validate_def)
  qed
  have stored: "\<exists>view db'. registrations_action_route ev db req0 = (Succeeded 200 view, db')
           \<and> reg_status (rv_registration view) = ''REJECTED''
           \<and> reg_rejectionReason (rv_registration view) = Some m
           \<and> find (\<lambda>r. reg_id r = i) (registrations db') = Some (rv_registration view)"
    if a: "ar_action (req_payload req) = Present ''reject''"
      and m: "ar_message (req_payload req) = Present m" "10 \<le> length m" "length m \<le> 500"
      and k: "ar_unknown (req_payload req) = []"
      and p: "req_params req ''id'' = Some i"
      and f: "find (\<lambda>r. reg_id r = i) (registrations db) = Some r0"
      and inc: "include_relations db r0 = Inr v" and st: "reg_status r0 = ''PENDING''"
    for m i r0 v
  proof -
    let ?body = "\<lparr>ab_action = ''reject'', ab_message = Some m\<rparr>"
    let ?req3 = "with_payload req ?body"
    have valid: "validate registrationActionValidation req = Next ?req3"
      using reject_with_reason [OF a m k] by (simp add: validate_def)
    have p3: "req_params ?req3 ''id'' = Some i" using p by (simp add: with_payload_def)
    have u3: "req_user ?req3 = Some u" using u by (simp add: with_payload_def)
    have nonempty: "m \<noteq> []" using m(2) by auto
    have run: "patch_registration_action ev db ?req3
                 = (Inr (200, v\<lparr>rv_registration := updateData ev u ?body r0\<rparr>),
                    db\<lparr>registrations := update_first (\<lambda>r. reg_id r = i) (updateData ev u ?body)
                                            (registrations db)\<rparr>)"
      using patch_pending [OF p3 f inc st u3, of ev] by (simp add: Let_def with_payload_def)
    have after: "find (\<lambda>r. reg_id r = i)
                   (update_first (\<lambda>r. reg_id r = i) (updateData ev u ?body) (registrations db))
                 = Some (updateData ev u ?body r0)"
      using f by (simp add: find_update_first updateData_def)
    show ?thesis
      unfolding route valid using run after nonempty
      by (simp add: asyncHandler_def updateData_def truthy_def)
  qed
  have optional: "validate registrationActionValidation req
          = Next (with_payload req \<lparr>ab_action = ''approve'', ab_message = None\<rparr>)"
    if "ar_action (req_payload req) = Present ''approve''"
      and "ar_message (req_payload req) = Absent" and "ar_unknown (req_payload req) = []"
    using approve_without_message [OF that] by (simp add: validate_def)
  show ?thesis
    using short stored optional by blast
qed

theorem rejection_requires_reason_witness:
  "(\<exists>r. registrations_action_route sample_env sample_db
           (sample_raw_action (Present ''reject'') Absent) = (Replied r, sample_db)
        \<and> res_status r = 400)
   \<and> (\<exists>r. registrations_action_route sample_env sample_db
           (sample_raw_action (Present ''reject'') (Present ''too short'')) = (Replied r, sample_db)
        \<and> res_status r = 400)
   \<and> (\<exists>view db'. registrations_action_route sample_env sample_db
           (sample_raw_action (Present ''reject'') (Present ''Documents are incomplete''))
          = (Succeeded 200 view, db')
        \<and> reg_status (rv_registration view) = ''REJECTED''
        \<and> reg_rejectionReason (rv_registration view) = Some ''Documents are incomplete'')
   \<and> validate registrationActionValidation
        ((sample_raw_action (Present ''approve'') Absent)\<lparr>req_user := Some sample_identity\<rparr>)
      = Next (with_payload
                ((sample_raw_action (Present ''approve'') Absent)\<lparr>req_user := Some sample_identity\<rparr>)
                \<lparr>ab_action = ''approve'', ab_message = None\<rparr>)"
proof -
  have found: "find (\<lambda>r. reg_id r = 2) (registrations sample_db)
                 = Some (sample_registration 2 ''PENDING'')"
    by (simp add: sample_defs)
  have pending: "reg_status (sample_registration 2 ''PENDING'') = ''PENDING''"
    by (simp add: sample_defs)
  note inst = rejection_requires_reason [OF sample_authenticated]
  have a: "\<exists>r. registrations_action_route sample_env sample_db
           (sample_raw_action (Present ''reject'') Absent) = (Replied r, sample_db)
        \<and> res_status r = 400"
    using inst [of "\<lparr>ar_action = Present ''reject'', ar_message = Absent, ar_unknown = []\<rparr>"]
    by (auto simp: sample_raw_action_def sample_request_def)
  have b: "\<exists>r. registrations_action_route sample_env sample_db
           (sample_raw_action (Present ''reject'') (Present ''too short'')) = (Replied r, sample_db)
        \<and> res_status r = 400"
    using inst [of "\<lparr>ar_action = Present ''reject'', ar_message = Present ''too short'',
                     ar_unknown = []\<rparr>"]
    by (auto simp: sample_raw_action_def sample_request_def)
  have c: "\<exists>view db'. registrations_action_route sample_env sample_db
           (sample_raw_action (Present ''reject'') (Present ''Documents are incomplete''))
          = (Succeeded 200 view, db')
        \<and> reg_status (rv_registration view) = ''REJECTED''
        \<and> reg_rejectionReason (rv_registration view) = Some ''Documents are incomplete''"
    using inst [of "\<lparr>ar_action = Present ''reject'',
                     ar_message = Present ''Documents are incomplete'', ar_unknown = []\<rparr>"]
          found pending sample_include [of 2 "''PENDING''"]
    by (auto simp: sample_raw_action_def sample_request_def)
  have d: "validate registrationActionValidation
        ((sample_raw_action (Present ''approve'') Absent)\<lparr>req_user := Some sample_identity\<rparr>)
      = Next (with_payload
                ((sample_raw_action (Present ''approve'') Absent)\<lparr>req_user := Some sample_identity\<rparr>)
                \<lparr>ab_action = ''approve'', ab_message = None\<rparr>)"
    using inst [of "\<lparr>ar_action = Present ''approve'', ar_message = Absent, ar_unknown = []\<rparr>"]
    by (auto simp: sample_raw_action_def sample_request_def)
  show ?thesis using a b c d by blast
qed

section \<open>Creating a registration\<close>

lemma resolve_student_registrations:
  "registrations (snd (resolve_student db b)) = registrations db"
  by (simp add: resolve_student_def Let_def split: option.splits)

lemma active_pairs_append:
  "active_pairs (rs @ [r]) =
     active_pairs rs @ (if reg_status r \<in> {''PENDING'', ''APPROVED''}
                        then [(reg_studentId r, reg_courseId r)] else [])"
  by (simp add: active_pairs_def)

lemma find_None_active_pair:
  assumes "find (\<lambda>r. reg_studentId r = sid \<and> reg_courseId r = cid
                      \<and> reg_status r \<in> {''PENDING'', ''APPROVED''}) rs = None"
  shows "(sid, cid) \<notin> set (active_pairs rs)"
  using assms by (auto simp: find_None_iff active_pairs_def)

lemma post_registrations_found:
  assumes "find (\<lambda>c. course_id c = rb_courseId (req_payload req)) (courses db) = Some crs"
    and "resolve_student db (req_payload req) = (sid, db1)"
  shows "post_registrations ev db req =
     (case find (\<lambda>r. reg_studentId r = sid \<and> reg_courseId r = rb_courseId (req_payload req)
                      \<and> reg_status r \<in> {''PENDING'', ''APPROVED''}) (registrations db1) of
        Some existingRegistration \<Rightarrow>
          (Inl (mkCustomError ''A registration for this course already exists'' 409
                  ''REGISTRATION_EXISTS''), db1)
      | None \<Rightarrow>
          (let registration =
                 \<lparr>reg_id = fresh_id (map reg_id (registrations db1)),
                  reg_studentId = sid, reg_courseId = rb_courseId (req_payload req),
                  reg_message = rb_message (req_payload req), reg_status = ''PENDING'',
                  reg_reviewedBy = None, reg_reviewedAt = None, reg_rejectionReason = None,
                  reg_createdAt = now ev\<rparr>;
               db2 = db1\<lparr>registrations := registrations db1 @ [registration]\<rparr>
           in case include_relations db2 registration of
                Inl e \<Rightarrow> (Inl e, db2)
              | Inr created \<Rightarrow> (Inr (201, created), db2)))"
  using assms by (simp add: post_registrations_def Let_def)

lemma post_registrations_registrations:
  "registrations (snd (post_registrations ev db req)) = registrations db
   \<or> (\<exists>r. registrations (snd (post_registrations ev db req)) = registrations db @ [r]
          \<and> reg_status r = ''PENDING''
          \<and> (reg_studentId r, reg_courseId r) \<notin> set (active_pairs (registrations db)))"
proof (cases "find (\<lambda>c. course_id c = rb_courseId (req_payload req)) (courses db)")
  case None
  then show ?thesis by (simp add: post_registrations_def Let_def)
next
  case (Some crs)
  obtain sid db1 where rs: "resolve_student db (req_payload req) = (sid, db1)"
    by (cases "resolve_student db (req_payload req)")
  have regs: "registrations db1 = registrations db"
    using resolve_student_registrations [of db "req_payload req"] rs by simp
  note run = post_registrations_found [OF Some rs, of ev]
  show ?thesis
  proof (cases "find (\<lambda>r. reg_studentId r = sid \<and> reg_courseId r = rb_courseId (req_payload req)
                      \<and> reg_status r \<in> {''PENDING'', ''APPROVED''}) (registrations db1)")
    case None
    have fresh: "(sid, rb_courseId (req_payload req)) \<notin> set (active_pairs (registrations db))"
      using find_None_active_pair [OF None] regs by simp
    show ?thesis
      unfolding run None using fresh regs
      by (simp add: Let_def split: sum.splits)
  next
    case (Some existing)
    show ?thesis
      unfolding run Some using regs by simp
  qed
qed

lemma post_registrations_invariant:
  assumes "one_registration_per_pair db"
  shows "one_registration_per_pair (snd (post_registrations ev db req))"
  using post_registrations_registrations [of ev db req] assms
  by (auto simp: one_registration_per_pair_def active_pairs_append)

lemma update_first_pairs_subset:
  "find P xs = Some x0 \<Longrightarrow> A x0 \<Longrightarrow> g (f x0) = g x0 \<Longrightarrow>
   set (map g (filter A (update_first P f xs))) \<subseteq> set (map g (filter A xs))"
  by (induction xs) (auto split: if_splits)

lemma update_first_pairs_distinct:
  "find P xs = Some x0 \<Longrightarrow> A x0 \<Longrightarrow> g (f x0) = g x0 \<Longrightarrow>
   distinct (map g (filter A xs)) \<Longrightarrow> distinct (map g (filter A (update_first P f xs)))"
proof (induction xs)
  case Nil
  then show ?case by simp
next
  case (Cons x xs)
  show ?case
  proof (cases "P x")
    case True
    then show ?thesis using Cons.prems by auto
  next
    case False
    then have found: "find P xs = Some x0" using Cons.prems(1) by simp
    have sub: "set (map g (filter A (update_first P f xs))) \<subseteq> set (map g (filter A xs))"
      using update_first_pairs_subset [of P xs x0 A g f] found Cons.prems(2,3) by blast
    have ih: "distinct (map g (filter A (update_first P f xs)))"
      using Cons.IH found Cons.prems(2,3,4) by (simp split: if_splits)
    show ?thesis using False sub ih Cons.prems(4) by auto
  qed
qed

lemma patch_not_pending:
  assumes "\<not> (\<exists>i r0 v u. req_params req ''id'' = Some i
              \<and> find (\<lambda>r. reg_id r = i) (registrations db) = Some r0
              \<and> include_relations db r0 = Inr v
              \<and> reg_status r0 = ''PENDING'' \<and> req_user req = Some u)"
  shows "snd (patch_registration_action ev db req) = db"
proof (cases "req_params req ''id''")
  case None
  then show ?thesis by (simp add: patch_registration_action_def)
next
  case (Some i)
  note param = Some
  show ?thesis
  proof (cases "find (\<lambda>r. reg_id r = i) (registrations db)")
    case None
    then show ?thesis using param by (simp add: patch_registration_action_def)
  next
    case (Some r0)
    note found = Some
    show ?thesis
    proof (cases "include_relations db r0")
      case (Inl e)
      then show ?thesis using param found by (simp add: patch_registration_action_def)
    next
      case (Inr v)
      have same: "rv_registration v = r0"
        using Inr include_relations_fields by blast
      show ?thesis
      proof (cases "reg_status r0 = ''PENDING''")
        case True
        then have "req_user req = None"
          using assms param found Inr by (cases "req_user req") auto
        then show ?thesis
          using param found Inr same True by (simp add: patch_registration_action_def)
      next
        case False
        then show ?thesis
          using param found Inr same by (simp add: patch_registration_action_def)
      qed
    qed
  qed
qed

lemma patch_registration_action_invariant:
  assumes "one_registration_per_pair db"
  shows "one_registration_per_pair (snd (patch_registration_action ev db req))"
proof (cases "\<exists>i r0 v u. req_params req ''id'' = Some i
              \<and> find (\<lambda>r. reg_id r = i) (registrations db) = Some r0
              \<and> include_relations db r0 = Inr v
              \<and> reg_status r0 = ''PENDING'' \<and> req_user req = Some u")
  case False
  then show ?thesis using patch_not_pending [of req db ev] assms by simp
next
  case True
  then obtain i r0 v u where h: "req_params req ''id'' = Some i"
      "find (\<lambda>r. reg_id r = i) (registrations db) = Some r0"
      "include_relations db r0 = Inr v" "reg_status r0 = ''PENDING''" "req_user req = Some u"
    by blast
  let ?upd = "updateData ev u (req_payload req)"
  have regs: "registrations (snd (patch_registration_action ev db req))
                = update_first (\<lambda>r. reg_id r = i) ?upd (registrations db)"
    using patch_pending [OF h, of ev] by (simp add: Let_def approve_effects_fields)
  have "distinct (map (\<lambda>r. (reg_studentId r, reg_courseId r))
          (filter (\<lambda>r. reg_status r \<in> {''PENDING'', ''APPROVED''})
             (update_first (\<lambda>r. reg_id r = i) ?upd (registrations db))))"
  proof (rule update_first_pairs_distinct [where ?x0.0 = r0])
    show "find (\<lambda>r. reg_id r = i) (registrations db) = Some r0" by (rule h(2))
    show "reg_status r0 \<in> {''PENDING'', ''APPROVED''}" using h(4) by simp
    show "(reg_studentId (?upd r0), reg_courseId (?upd r0)) = (reg_studentId r0, reg_courseId r0)"
      by (simp add: updateData_def)
    show "distinct (map (\<lambda>r. (reg_studentId r, reg_courseId r))
          (filter (\<lambda>r. reg_status r \<in> {''PENDING'', ''APPROVED''}) (registrations db)))"
      using assms by (simp add: one_registration_per_pair_def active_pairs_def)
  qed
  then show ?thesis
    unfolding one_registration_per_pair_def active_pairs_def regs .
qed

lemma serve_invariant:
  "one_registration_per_pair db \<Longrightarrow> one_registration_per_pair (foldl serve db calls)"
proof (induction calls arbitrary: db)
  case Nil
  then show ?case by simp
next
  case (Cons call calls)
  obtain ev c where call: "call = (ev, c)" by (cases call)
  have "one_registration_per_pair (serve db call)"
    unfolding call using Cons.prems
    by (cases c) (simp_all add: post_registrations_invariant patch_registration_action_invariant)
  then show ?case using Cons.IH by simp
qed

lemma post_registrations_conflict:
  assumes "find (\<lambda>c. course_id c = rb_courseId (req_payload req)) (courses db) = Some crs"
    and "find (\<lambda>u. user_email u = toLowerCase (rb_email (req_payload req))) (users db) = Some usr"
    and "find (\<lambda>s. student_userId s = user_id usr) (students db) = Some stu"
    and "r \<in> set (registrations db)"
    and "reg_studentId r = student_id stu"
    and "reg_courseId r = rb_courseId (req_payload req)"
    and "reg_status r \<in> {''PENDING'', ''APPROVED''}"
  shows "post_registrations ev db req
           = (Inl (mkCustomError ''A registration for this course already exists'' 409
                     ''REGISTRATION_EXISTS''), db)"
proof -
  have rs: "resolve_student db (req_payload req) = (student_id stu, db)"
    using assms(2,3) by (simp add: resolve_student_def)
  have "find (\<lambda>x. reg_studentId x = student_id stu \<and> reg_courseId x = rb_courseId (req_payload req)
                  \<and> reg_status x \<in> {''PENDING'', ''APPROVED''}) (registrations db) \<noteq> None"
    using assms(4-7) by (auto simp: find_None_iff)
  then obtain existing where
    "find (\<lambda>x. reg_studentId x = student_id stu \<and> reg_courseId x = rb_courseId (req_payload req)
                  \<and> reg_status x \<in> {''PENDING'', ''APPROVED''}) (registrations db) = Some existing"
    by blast
  then show ?thesis
    unfolding post_registrations_found [OF assms(1) rs, of ev] by simp
qed

lemma toLowerCase_sample:
  "toLowerCase ''Jane@Example.com'' = ''jane@example.com''"
  "toLowerCase ''new@example.com'' = ''new@example.com''"
  by code_simp+

lemma post_registrations_split:
  "post_registrations ev db req =
     (case post_registrations_check ev db req of
        (Inl e, db1) \<Rightarrow> (Inl e, db1)
      | (Inr studentId, db1) \<Rightarrow> post_registrations_create ev db1 req studentId)"
  by (simp add: post_registrations_def post_registrations_check_def
        post_registrations_create_def Let_def split: option.splits prod.splits)

text \<open>
  Claim C2, as the code has it. When the request names a course and an email whose
  student already has a registration for that course with status \<open>PENDING\<close> or \<open>APPROVED\<close>,
  the handler throws the error that the error normalizer answers with status 409 and code
  \<open>REGISTRATION_EXISTS\<close>, and the database (so also the registration table) is unchanged.
  Consequently, over any sequence of registration and action requests in which each is
  served to its end before the next begins, no student-course pair ever has two
  pending-or-approved registrations. Requests whose handlers overlap are not covered: the
  check and the create are separate steps.
\<close>

theorem registration_exists_conflict:
  "(\<forall>crs usr stu r.
      find (\<lambda>c. course_id c = rb_courseId (req_payload req)) (courses db) = Some crs
      \<and> find (\<lambda>u. user_email u = toLowerCase (rb_email (req_payload req))) (users db) = Some usr
      \<and> find (\<lambda>s. student_userId s = user_id usr) (students db) = Some stu
      \<and> r \<in> set (registrations db)
      \<and> reg_studentId r = student_id stu
      \<and> reg_courseId r = rb_courseId (req_payload req)
      \<and> reg_status r \<in> {''PENDING'', ''APPROVED''}
      \<longrightarrow> post_registrations ev db req
            = (Inl (mkCustomError ''A registration for this course already exists'' 409
                      ''REGISTRATION_EXISTS''), db)
          \<and> (\<exists>resp. asyncHandler ev (post_registrations ev db req) = (Replied resp, db)
                 \<and> res_status resp = 409
                 \<and> jfield (res_body resp) ''code'' = Some (JStr ''REGISTRATION_EXISTS'')))
   \<and> (one_registration_per_pair db \<longrightarrow> one_registration_per_pair (foldl serve db calls))"
proof -
  have conflict: "post_registrations ev db req
            = (Inl (mkCustomError ''A registration for this course already exists'' 409
                      ''REGISTRATION_EXISTS''), db)
          \<and> (\<exists>resp. asyncHandler ev (post_registrations ev db req) = (Replied resp, db)
                 \<and> res_status resp = 409
                 \<and> jfield (res_body resp) ''code'' = Some (JStr ''REGISTRATION_EXISTS''))"
    if "find (\<lambda>c. course_id c = rb_courseId (req_payload req)) (courses db) = Some crs"
      and "find (\<lambda>u. user_email u = toLowerCase (rb_email (req_payload req))) (users db) = Some usr"
      and "find (\<lambda>s. student_userId s = user_id usr) (students db) = Some stu"
      and "r \<in> set (registrations db)"
      and "reg_studentId r = student_id stu"
      and "reg_courseId r = rb_courseId (req_payload req)"
      and "reg_status r \<in> {''PENDING'', ''APPROVED''}"
    for crs usr stu r
    unfolding post_registrations_conflict [OF that, of ev]
    by (simp add: asyncHandler_custom errorHandler_custom)
  show ?thesis
    using conflict serve_invariant [of db calls] by blast
qed

theorem registration_exists_conflict_witness:
  "find (\<lambda>u. user_email u = toLowerCase ''Jane@Example.com'') (users sample_db)
     = Some sample_student_user
   \<and> sample_registration 2 ''PENDING'' \<in> set (registrations sample_db)
   \<and> post_registrations sample_env sample_db
        (sample_request None (sample_body ''Jane@Example.com''))
      = (Inl (mkCustomError ''A registration for this course already exists'' 409
                ''REGISTRATION_EXISTS''), sample_db)
   \<and> one_registration_per_pair sample_db
   \<and> one_registration_per_pair
        (foldl serve sample_db
           [(sample_env, PostRegistrations (sample_request None (sample_body ''Jane@Example.com''))),
            (sample_env, PostRegistrations (sample_request None (sample_body ''new@example.com'')))])"
proof -
  have h2: "find (\<lambda>u. user_email u = toLowerCase ''Jane@Example.com'') (users sample_db)
     = Some sample_student_user"
    by (simp add: toLowerCase_sample sample_defs)
  have h4: "sample_registration 2 ''PENDING'' \<in> set (registrations sample_db)"
    by (simp add: sample_defs)
  have inv: "one_registration_per_pair sample_db"
    by (simp add: one_registration_per_pair_def active_pairs_def sample_defs)
  have h1: "find (\<lambda>c. course_id c = rb_courseId (req_payload (sample_request None (sample_body ''Jane@Example.com''))))
             (courses sample_db)
            = Some \<lparr>course_id = 1, course_title = ''Foundation'', course_category = ''Business'',
                   course_price = 100, course_currency = ''NGN''\<rparr>"
    by (simp add: sample_defs)
  have h3: "find (\<lambda>s. student_userId s = user_id sample_student_user) (students sample_db)
     = Some \<lparr>student_id = 1, student_userId = 2, student_profile = sample_profile\<rparr>"
    by (simp add: sample_defs)
  show ?thesis
    using registration_exists_conflict
      [of "sample_request None (sample_body ''Jane@Example.com'')" sample_db sample_env
          "[(sample_env, PostRegistrations (sample_request None (sample_body ''Jane@Example.com''))),
            (sample_env, PostRegistrations (sample_request None (sample_body ''new@example.com'')))]"]
      h1 h2 h3 h4 inv
    by (auto simp: sample_request_def sample_body_def sample_registration_def)
qed

text \<open>
  The claim as the specification states it fails for two registration requests of the same
  new student for the same course whose handlers overlap: both pass the check before either
  creates its row, and the pair ends with two pending registrations.
\<close>

theorem overlapping_registrations_duplicate:
  "one_registration_per_pair sample_db
   \<and> active_pairs
        (registrations
           (overlapped_posts sample_env sample_db
              (sample_request None (sample_body ''new@example.com''))
              (sample_request None (sample_body ''new@example.com''))))
      = [(1, 1), (2, 1), (2, 1)]
   \<and> \<not> one_registration_per_pair
          (overlapped_posts sample_env sample_db
             (sample_request None (sample_body ''new@example.com''))
             (sample_request None (sample_body ''new@example.com'')))"
proof -
  have before: "one_registration_per_pair sample_db"
    by (simp add: one_registration_per_pair_def active_pairs_def sample_defs)
  have pairs: "active_pairs
        (registrations
           (overlapped_posts sample_env sample_db
              (sample_request None (sample_body ''new@example.com''))
              (sample_request None (sample_body ''new@example.com''))))
      = [(1, 1), (2, 1), (2, 1)]"
    by (simp add: overlapped_posts_def post_registrations_check_def
          post_registrations_create_def resolve_student_def include_relations_def
          fresh_id_def active_pairs_def toLowerCase_sample Let_def sample_defs)
  show ?thesis
    using before pairs by (simp add: one_registration_per_pair_def)
qed

lemma find_append_new:
  "find P xs = None \<Longrightarrow> P y \<Longrightarrow> find P (xs @ [y]) = Some y"
  by (induction xs) (auto split: if_splits)

lemma resolve_student_new_user:
  assumes "find (\<lambda>u. user_email u = toLowerCase (rb_email b)) (users db) = None"
  shows "\<exists>u. users (snd (resolve_student db b)) = users db @ [u]
            \<and> user_email u = toLowerCase (rb_email b)
            \<and> user_status u = ''INACTIVE''
            \<and> user_password u = ''temp_password_will_be_set_on_approval''"
  using assms by (simp add: resolve_student_def Let_def)

lemma post_registrations_new_user:
  assumes "find (\<lambda>c. course_id c = rb_courseId (req_payload req)) (courses db) = Some crs"
    and "find (\<lambda>u. user_email u = toLowerCase (rb_email (req_payload req))) (users db) = None"
  shows "\<exists>u. users (snd (post_registrations ev db req)) = users db @ [u]
            \<and> user_email u = toLowerCase (rb_email (req_payload req))
            \<and> user_status u = ''INACTIVE''
            \<and> user_password u = ''temp_password_will_be_set_on_approval''"
proof -
  obtain sid db1 where rs: "resolve_student db (req_payload req) = (sid, db1)"
    by (cases "resolve_student db (req_payload req)")
  have "users (snd (post_registrations ev db req)) = users db1"
    unfolding post_registrations_found [OF assms(1) rs, of ev]
    by (simp add: Let_def split: option.splits sum.splits)
  then show ?thesis
    using resolve_student_new_user [OF assms(2)] rs by simp
qed

lemma post_login_inactive:
  assumes "find (\<lambda>u. user_email u = toLowerCase (lb_email (req_payload lreq))) (users db) = Some u"
    and "user_status u \<noteq> ''ACTIVE''"
  shows "post_login ev db lreq
           = (Inl (mkCustomError ''Account is inactive. Please contact support.'' 401
                     ''ACCOUNT_INACTIVE''), db)"
  using assms by (simp add: post_login_def)

text \<open>
  Claim C3. A registration request for an existing course with an email that no user has
  creates exactly one user, with the lower-cased email, status \<open>INACTIVE\<close> and the
  placeholder password \<open>temp_password_will_be_set_on_approval\<close>; any later login attempt
  with that email is refused with the error of status 401 and code \<open>ACCOUNT_INACTIVE\<close>.
  In general, when the login email resolves to a user whose status is not \<open>ACTIVE\<close>, the
  login handler throws that error whatever password is submitted (and whatever the
  password comparison would say), leaving the database unchanged.
\<close>

theorem self_registered_user_cannot_log_in:
  "(\<forall>crs. find (\<lambda>c. course_id c = rb_courseId (req_payload req)) (courses db) = Some crs
        \<and> find (\<lambda>u. user_email u = toLowerCase (rb_email (req_payload req))) (users db) = None
      \<longrightarrow> (\<exists>u. users (snd (post_registrations ev db req)) = users db @ [u]
              \<and> user_email u = toLowerCase (rb_email (req_payload req))
              \<and> user_status u = ''INACTIVE''
              \<and> user_password u = ''temp_password_will_be_set_on_approval''
              \<and> (\<forall>ev' attempt.
                    toLowerCase (lb_email (req_payload attempt))
                      = toLowerCase (rb_email (req_payload req)) \<longrightarrow>
                    post_login ev' (snd (post_registrations ev db req)) attempt
                      = (Inl (mkCustomError ''Account is inactive. Please contact support.'' 401
                                ''ACCOUNT_INACTIVE''),
                         snd (post_registrations ev db req)))))
   \<and> (\<forall>u. find (\<lambda>u. user_email u = toLowerCase (lb_email (req_payload lreq))) (users db) = Some u
          \<and> user_status u \<noteq> ''ACTIVE''
      \<longrightarrow> (\<forall>pw. post_login ev db (lreq\<lparr>req_payload := (req_payload lreq)\<lparr>lb_password := pw\<rparr>\<rparr>)
                  = (Inl (mkCustomError ''Account is inactive. Please contact support.'' 401
                            ''ACCOUNT_INACTIVE''), db))
          \<and> (\<exists>resp. asyncHandler ev (post_login ev db lreq) = (Replied resp, db)
                 \<and> res_status resp = 401
                 \<and> jfield (res_body resp) ''code'' = Some (JStr ''ACCOUNT_INACTIVE'')))"
proof -
  have created: "\<exists>u. users (snd (post_registrations ev db req)) = users db @ [u]
              \<and> user_email u = toLowerCase (rb_email (req_payload req))
              \<and> user_status u = ''INACTIVE''
              \<and> user_password u = ''temp_password_will_be_set_on_approval''
              \<and> (\<forall>ev' attempt.
                    toLowerCase (lb_email (req_payload attempt))
                      = toLowerCase (rb_email (req_payload req)) \<longrightarrow>
                    post_login ev' (snd (post_registrations ev db req)) attempt
                      = (Inl (mkCustomError ''Account is inactive. Please contact support.'' 401
                                ''ACCOUNT_INACTIVE''),
                         snd (post_registrations ev db req)))"
    if c: "find (\<lambda>c. course_id c = rb_courseId (req_payload req)) (courses db) = Some crs"
      and n: "find (\<lambda>u. user_email u = toLowerCase (rb_email (req_payload req))) (users db) = None"
    for crs
  proof -
    obtain u where u: "users (snd (post_registrations ev db req)) = users db @ [u]"
        "user_email u = toLowerCase (rb_email (req_payload req))"
        "user_status u = ''INACTIVE''"
        "user_password u = ''temp_password_will_be_set_on_approval''"
      using post_registrations_new_user [OF c n, of ev] by blast
    have found: "find (\<lambda>x. user_email x = toLowerCase (rb_email (req_payload req)))
                   (users (snd (post_registrations ev db req))) = Some u"
      unfolding u(1) using find_append_new [OF n, of u] u(2) by simp
    have "post_login ev' (snd (post_registrations ev db req)) attempt
          = (Inl (mkCustomError ''Account is inactive. Please contact support.'' 401
                    ''ACCOUNT_INACTIVE''), snd (post_registrations ev db req))"
      if "toLowerCase (lb_email (req_payload attempt)) = toLowerCase (rb_email (req_payload req))"
      for ev' and attempt :: "login_body request"
      by (rule post_login_inactive [where u = u]) (simp_all add: that found u(3))
    then show ?thesis using u by blast
  qed
  have login: "(\<forall>pw. post_login ev db (lreq\<lparr>req_payload := (req_payload lreq)\<lparr>lb_password := pw\<rparr>\<rparr>)
                  = (Inl (mkCustomError ''Account is inactive. Please contact support.'' 401
                            ''ACCOUNT_INACTIVE''), db))
          \<and> (\<exists>resp. asyncHandler ev (post_login ev db lreq) = (Replied resp, db)
                 \<and> res_status resp = 401
                 \<and> jfield (res_body resp) ''code'' = Some (JStr ''ACCOUNT_INACTIVE''))"
    if f: "find (\<lambda>u. user_email u = toLowerCase (lb_email (req_payload lreq))) (users db) = Some u"
      and s: "user_status u \<noteq> ''ACTIVE''"
    for u
  proof -
    have any: "post_login ev db (lreq\<lparr>req_payload := (req_payload lreq)\<lparr>lb_password := pw\<rparr>\<rparr>)
                  = (Inl (mkCustomError ''Account is inactive. Please contact support.'' 401
                            ''ACCOUNT_INACTIVE''), db)" for pw
      by (rule post_login_inactive [where u = u]) (simp_all add: f s)
    show ?thesis
      using any unfolding post_login_inactive [OF f s, of ev]
      by (simp add: asyncHandler_custom errorHandler_custom)
  qed
  show ?thesis
    using created login by blast
qed

theorem self_registered_user_cannot_log_in_witness:
  "find (\<lambda>u. user_email u = toLowerCase ''new@example.com'') (users sample_db) = None
   \<and> map user_status
        (users (snd (post_registrations sample_env sample_db
                       (sample_request None (sample_body ''new@example.com'')))))
      = [''ACTIVE'', ''INACTIVE'', ''INACTIVE'']
   \<and> post_login sample_env
        (snd (post_registrations sample_env sample_db
                (sample_request None (sample_body ''new@example.com''))))
        (sample_request None \<lparr>lb_email = ''new@example.com'',
                               lb_password = ''temp_password_will_be_set_on_approval''\<rparr>)
      = (Inl (mkCustomError ''Account is inactive. Please contact support.'' 401
                ''ACCOUNT_INACTIVE''),
         snd (post_registrations sample_env sample_db
                (sample_request None (sample_body ''new@example.com''))))
   \<and> post_login sample_env sample_db
        (sample_request None \<lparr>lb_email = ''Jane@Example.com'', lb_password = ''guess''\<rparr>)
      = (Inl (mkCustomError ''Account is inactive. Please contact support.'' 401
                ''ACCOUNT_INACTIVE''), sample_db)"
proof -
  let ?req = "sample_request None (sample_body ''new@example.com'')"
  let ?lreq = "sample_request None \<lparr>lb_email = ''Jane@Example.com'', lb_password = ''x''\<rparr>"
  have h1: "find (\<lambda>c. course_id c = rb_courseId (req_payload ?req)) (courses sample_db)
            = Some \<lparr>course_id = 1, course_title = ''Foundation'', course_category = ''Business'',
                   course_price = 100, course_currency = ''NGN''\<rparr>"
    by (simp add: sample_defs)
  have h2: "find (\<lambda>u. user_email u = toLowerCase ''new@example.com'') (users sample_db) = None"
    by (simp add: toLowerCase_sample sample_defs)
  have h2': "find (\<lambda>u. user_email u = toLowerCase (rb_email (req_payload ?req))) (users sample_db)
              = None"
    using h2 by (simp add: sample_defs)
  have h3: "find (\<lambda>u. user_email u = toLowerCase (lb_email (req_payload ?lreq))) (users sample_db)
              = Some sample_student_user"
    by (simp add: toLowerCase_sample sample_defs)
  have h4: "user_status sample_student_user \<noteq> ''ACTIVE''"
    by (simp add: sample_defs)
  note inst = self_registered_user_cannot_log_in [of ?req sample_db sample_env ?lreq]
  from inst h1 h2' obtain u where u:
      "users (snd (post_registrations sample_env sample_db ?req)) = users sample_db @ [u]"
      "user_status u = ''INACTIVE''"
      "\<forall>ev' attempt. toLowerCase (lb_email (req_payload attempt))
                         = toLowerCase (rb_email (req_payload ?req)) \<longrightarrow>
          post_login ev' (snd (post_registrations sample_env sample_db ?req)) attempt
            = (Inl (mkCustomError ''Account is inactive. Please contact support.'' 401
                      ''ACCOUNT_INACTIVE''),
               snd (post_registrations sample_env sample_db ?req))"
    by blast
  have a: "map user_status (users (snd (post_registrations sample_env sample_db ?req)))
             = [''ACTIVE'', ''INACTIVE'', ''INACTIVE'']"
    unfolding u(1) using u(2) by (simp add: sample_defs)
  have b: "post_login sample_env (snd (post_registrations sample_env sample_db ?req))
        (sample_request None \<lparr>lb_email = ''new@example.com'',
                               lb_password = ''temp_password_will_be_set_on_approval''\<rparr>)
      = (Inl (mkCustomError ''Account is inactive. Please contact support.'' 401
                ''ACCOUNT_INACTIVE''),
         snd (post_registrations sample_env sample_db ?req))"
    using u(3) by (simp add: sample_request_def sample_body_def)
  have c: "post_login sample_env sample_db
        (sample_request None \<lparr>lb_email = ''Jane@Example.com'', lb_password = ''guess''\<rparr>)
      = (Inl (mkCustomError ''Account is inactive. Please contact support.'' 401
                ''ACCOUNT_INACTIVE''), sample_db)"
    using inst h3 h4 by (auto simp: sample_request_def)
  show ?thesis using h2 a b c by simp
qed

section \<open>Listing registrations page by page\<close>

lemma collect_include:
  "\<forall>r \<in> set rs. \<exists>v. include_relations db r = Inr v \<Longrightarrow>
   \<exists>vs. collect (map (include_relations db) rs) = Inr vs \<and> map rv_registration vs = rs"
proof (induction rs)
  case Nil
  then show ?case by simp
next
  case (Cons r rs)
  then obtain v where v: "include_relations db r = Inr v" by auto
  obtain vs where vs: "collect (map (include_relations db) rs) = Inr vs"
      "map rv_registration vs = rs"
    using Cons by auto
  have "rv_registration v = r" using include_relations_fields [OF v] by simp
  then show ?case using v vs by simp
qed

lemma validation_value:
  "paginationSearchValidation raw = Inr lq \<Longrightarrow> lq = list_value raw"
  by (simp add: paginationSearchValidation_def Let_def split: if_splits)

lemma validation_bounds:
  assumes "paginationSearchValidation raw = Inr lq"
  shows "1 \<le> lv_page lq \<and> 1 \<le> lv_limit lq \<and> lv_limit lq \<le> 100"
proof -
  have none: "joi_number ''page'' (Some 1) None (lq_page raw) = []"
       "joi_number ''limit'' (Some 1) (Some 100) (lq_limit raw) = []"
    using assms
    by (simp_all add: paginationSearchValidation_def paginationValidation_errors_def Let_def
          split: if_splits)
  have p: "1 \<le> lv_page (list_value raw)"
    using none(1) by (cases "lq_page raw") (auto simp: joi_number_def list_value_def split: if_splits)
  have l: "1 \<le> lv_limit (list_value raw) \<and> lv_limit (list_value raw) \<le> 100"
    using none(2) by (cases "lq_limit raw") (auto simp: joi_number_def list_value_def split: if_splits)
  show ?thesis using p l validation_value [OF assms] by simp
qed

lemma validation_out_of_range:
  assumes "(lq_page raw = Present n \<and> n < 1)
           \<or> (lq_limit raw = Present n \<and> (n < 1 \<or> 100 < n))"
  shows "\<exists>errs. paginationSearchValidation raw = Inl errs"
proof -
  have "joi_number ''page'' (Some 1) None (lq_page raw) \<noteq> []
        \<or> joi_number ''limit'' (Some 1) (Some 100) (lq_limit raw) \<noteq> []"
    using assms by (auto simp: joi_number_def)
  then show ?thesis
    by (auto simp: paginationSearchValidation_def paginationValidation_errors_def Let_def)
qed

lemma list_route_after_auth:
  assumes "authenticateUser ev db req0 = Next req" and "requireAdmin req = Next req"
  shows "registrations_list_route ev db req0
           = (case validateQuery paginationSearchValidation req of
                Respond r \<Rightarrow> (Replied r, db)
              | Next req3 \<Rightarrow> asyncHandler ev (get_registrations ev db req3))"
  using assms by (simp add: registrations_list_route_def)

lemma get_registrations_first_page:
  assumes "lv_page (req_payload req) = 1" and "lv_limit (req_payload req) = 10"
    and "where_accepted ev (build_where (req_payload req))"
    and "order_by ev (case lv_sortBy (req_payload req) of None \<Rightarrow> ''createdAt'' | Some k \<Rightarrow> k)
           (lv_sortOrder (req_payload req))
           (filter (where_matches db (build_where (req_payload req))) (registrations db))
         = Some ordered"
    and "\<forall>r \<in> set ordered. \<exists>v. include_relations db r = Inr v"
  shows "\<exists>res. get_registrations ev db req = (Inr (200, res), db)
      \<and> map rv_registration (lr_registrations res) = take 10 ordered
      \<and> pg_page (lr_pagination res) = 1 \<and> pg_limit (lr_pagination res) = 10
      \<and> pg_total (lr_pagination res)
          = length (filter (where_matches db (build_where (req_payload req))) (registrations db))
      \<and> pg_pages (lr_pagination res)
          = Some \<lceil>of_nat (length (filter (where_matches db (build_where (req_payload req)))
                                  (registrations db))) / (10::rat)\<rceil>"
proof -
  have "\<forall>r \<in> set (take 10 ordered). \<exists>v. include_relations db r = Inr v"
    using assms(5) by (meson in_set_takeD)
  then obtain vs where vs: "collect (map (include_relations db) (take 10 ordered)) = Inr vs"
      "map rv_registration vs = take 10 ordered"
    using collect_include [of "take 10 ordered" db] by blast
  have many: "findMany_registrations ev db (build_where (req_payload req))
                (case lv_sortBy (req_payload req) of None \<Rightarrow> ''createdAt'' | Some k \<Rightarrow> k)
                (lv_sortOrder (req_payload req)) 0 10 = Inr vs"
    using vs(1) assms(3,4) by (simp add: findMany_registrations_def is_integer_def)
  show ?thesis
    using many vs(2) assms(1,2,3)
    by (simp add: get_registrations_def Let_def count_registrations_def)
qed

lemma get_registrations_refused:
  assumes "\<not> where_accepted ev (build_where (req_payload req))
           \<or> order_by ev (case lv_sortBy (req_payload req) of None \<Rightarrow> ''createdAt'' | Some k \<Rightarrow> k)
                (lv_sortOrder (req_payload req))
                (filter (where_matches db (build_where (req_payload req))) (registrations db))
              = None"
  shows "get_registrations ev db req = (Inl prisma_validation_error, db)"
proof -
  have "findMany_registrations ev db (build_where (req_payload req))
          (case lv_sortBy (req_payload req) of None \<Rightarrow> ''createdAt'' | Some k \<Rightarrow> k)
          (lv_sortOrder (req_payload req))
          ((lv_page (req_payload req) - 1) * lv_limit (req_payload req))
          (lv_limit (req_payload req))
        = Inl prisma_validation_error"
    using assms by (auto simp: findMany_registrations_def)
  then show ?thesis by (simp add: get_registrations_def Let_def)
qed

lemma asyncHandler_validation_error:
  "\<exists>r. asyncHandler ev (Inl prisma_validation_error, db) = (Replied r, db)
       \<and> res_status r = 400 \<and> jfield (res_body r) ''code'' = Some (JStr ''VALIDATION_ERROR'')"
  by (simp add: asyncHandler_def errorHandler_middleware_def res_status_json_def
        errorHandler_def resolve_error_def prisma_validation_error_def Let_def)

text \<open>
  Claim C8, as the code has it. For an authenticated administrator's list request without
  \<open>page\<close> and \<open>limit\<close> that passes validation, the validated query has page 1 and limit
  10. When the ORM accepts the query (the status filter's value and the sort key, which is
  the request's \<open>sortBy\<close>, unvalidated, or \<open>createdAt\<close> if none is given), the route returns
  the first 10 rows (fewer if there are fewer) of the ordered matching registrations,
  starting at offset 0, with \<open>pagination.page = 1\<close>, \<open>limit = 10\<close>, the total number of
  matching registrations and \<open>pages = ceil(total / 10)\<close>. When the ORM refuses the status
  value or the sort key, the route returns no items: it answers 400 with code
  \<open>VALIDATION_ERROR\<close>. Every validated query has page at least 1 and limit between 1 and
  100, and a request with a smaller page or a limit outside that range is answered 400.
\<close>

theorem pagination_defaults:
  assumes "authenticateUser ev db req0 = Next req" and "requireAdmin req = Next req"
  shows
  "(\<forall>lq. lq_page (req_payload req) = Absent \<and> lq_limit (req_payload req) = Absent
         \<and> paginationSearchValidation (req_payload req) = Inr lq \<longrightarrow>
      lv_page lq = 1 \<and> lv_limit lq = 10
      \<and> (\<forall>ordered.
            where_accepted ev (build_where lq)
            \<and> order_by ev (case lv_sortBy lq of None \<Rightarrow> ''createdAt'' | Some k \<Rightarrow> k)
                 (lv_sortOrder lq)
                 (filter (where_matches db (build_where lq)) (registrations db)) = Some ordered
            \<and> (\<forall>r \<in> set ordered. \<exists>v. include_relations db r = Inr v) \<longrightarrow>
            (\<exists>res. registrations_list_route ev db req0 = (Succeeded 200 res, db)
               \<and> map rv_registration (lr_registrations res) = take 10 ordered
               \<and> length (lr_registrations res) \<le> 10
               \<and> pg_page (lr_pagination res) = 1 \<and> pg_limit (lr_pagination res) = 10
               \<and> pg_total (lr_pagination res)
                   = length (filter (where_matches db (build_where lq)) (registrations db))
               \<and> pg_pages (lr_pagination res)
                   = Some \<lceil>of_nat (pg_total (lr_pagination res)) / (10::rat)\<rceil>))
      \<and> (\<not> where_accepted ev (build_where lq)
          \<or> order_by ev (case lv_sortBy lq of None \<Rightarrow> ''createdAt'' | Some k \<Rightarrow> k)
               (lv_sortOrder lq)
               (filter (where_matches db (build_where lq)) (registrations db)) = None \<longrightarrow>
          (\<exists>r. registrations_list_route ev db req0 = (Replied r, db) \<and> res_status r = 400
              \<and> jfield (res_body r) ''code'' = Some (JStr ''VALIDATION_ERROR''))))
   \<and> (\<forall>lq. paginationSearchValidation (req_payload req) = Inr lq \<longrightarrow>
         1 \<le> lv_page lq \<and> 1 \<le> lv_limit lq \<and> lv_limit lq \<le> 100)
   \<and> (\<forall>n. (lq_page (req_payload req) = Present n \<and> n < 1)
            \<or> (lq_limit (req_payload req) = Present n \<and> (n < 1 \<or> 100 < n)) \<longrightarrow>
         (\<exists>r. registrations_list_route ev db req0 = (Replied r, db) \<and> res_status r = 400))"
proof -
  note route = list_route_after_auth [OF assms]
  have defaults: "lv_page lq = 1 \<and> lv_limit lq = 10
      \<and> (\<forall>ordered.
            where_accepted ev (build_where lq)
            \<and> order_by ev (case lv_sortBy lq of None \<Rightarrow> ''createdAt'' | Some k \<Rightarrow> k)
                 (lv_sortOrder lq)
                 (filter (where_matches db (build_where lq)) (registrations db)) = Some ordered
            \<and> (\<forall>r \<in> set ordered. \<exists>v. include_relations db r = Inr v) \<longrightarrow>
            (\<exists>res. registrations_list_route ev db req0 = (Succeeded 200 res, db)
               \<and> map rv_registration (lr_registrations res) = take 10 ordered
               \<and> length (lr_registrations res) \<le> 10
               \<and> pg_page (lr_pagination res) = 1 \<and> pg_limit (lr_pagination res) = 10
               \<and> pg_total (lr_pagination res)
                   = length (filter (where_matches db (build_where lq)) (registrations db))
               \<and> pg_pages (lr_pagination res)
                   = Some \<lceil>of_nat (pg_total (lr_pagination res)) / (10::rat)\<rceil>))
      \<and> (\<not> where_accepted ev (build_where lq)
          \<or> order_by ev (case lv_sortBy lq of None \<Rightarrow> ''createdAt'' | Some k \<Rightarrow> k)
               (lv_sortOrder lq)
               (filter (where_matches db (build_where lq)) (registrations db)) = None \<longrightarrow>
          (\<exists>r. registrations_list_route ev db req0 = (Replied r, db) \<and> res_status r = 400
              \<and> jfield (res_body r) ''code'' = Some (JStr ''VALIDATION_ERROR'')))"
    if absent: "lq_page (req_payload req) = Absent" "lq_limit (req_payload req) = Absent"
      and valid: "paginationSearchValidation (req_payload req) = Inr lq"
    for lq
  proof -
    have lq: "lq = list_value (req_payload req)" using validation_value [OF valid] .
    have pl: "lv_page lq = 1" "lv_limit lq = 10"
      using absent by (simp_all add: lq list_value_def)
    have passed: "validateQuery paginationSearchValidation req = Next (with_payload req lq)"
      using valid by (simp add: validateQuery_def)
    have payload: "req_payload (with_payload req lq) = lq" by (simp add: with_payload_def)
    have listed: "\<exists>res. registrations_list_route ev db req0 = (Succeeded 200 res, db)
               \<and> map rv_registration (lr_registrations res) = take 10 ordered
               \<and> length (lr_registrations res) \<le> 10
               \<and> pg_page (lr_pagination res) = 1 \<and> pg_limit (lr_pagination res) = 10
               \<and> pg_total (lr_pagination res)
                   = length (filter (where_matches db (build_where lq)) (registrations db))
               \<and> pg_pages (lr_pagination res)
                   = Some \<lceil>of_nat (pg_total (lr_pagination res)) / (10::rat)\<rceil>"
      if acc: "where_accepted ev (build_where lq)"
        and ord: "order_by ev (case lv_sortBy lq of None \<Rightarrow> ''createdAt'' | Some k \<Rightarrow> k)
                 (lv_sortOrder lq)
                 (filter (where_matches db (build_where lq)) (registrations db)) = Some ordered"
        and fk: "\<forall>r \<in> set ordered. \<exists>v. include_relations db r = Inr v"
      for ordered
    proof -
      obtain res where res: "get_registrations ev db (with_payload req lq) = (Inr (200, res), db)"
        "map rv_registration (lr_registrations res) = take 10 ordered"
        "pg_page (lr_pagination res) = 1" "pg_limit (lr_pagination res) = 10"
        "pg_total (lr_pagination res)
          = length (filter (where_matches db (build_where lq)) (registrations db))"
        "pg_pages (lr_pagination res)
          = Some \<lceil>of_nat (length (filter (where_matches db (build_where lq))
                                  (registrations db))) / (10::rat)\<rceil>"
        using get_registrations_first_page [of "with_payload req lq" ev db ordered] pl acc ord fk
        unfolding payload by blast
      have "length (map rv_registration (lr_registrations res)) \<le> 10"
        unfolding res(2) by simp
      then have len: "length (lr_registrations res) \<le> 10" by simp
      have "registrations_list_route ev db req0 = (Succeeded 200 res, db)"
        unfolding route passed using res(1) by (simp add: asyncHandler_def)
      then show ?thesis using res len by simp
    qed
    have refusal: "\<exists>r. registrations_list_route ev db req0 = (Replied r, db) \<and> res_status r = 400
              \<and> jfield (res_body r) ''code'' = Some (JStr ''VALIDATION_ERROR'')"
      if no: "\<not> where_accepted ev (build_where lq)
          \<or> order_by ev (case lv_sortBy lq of None \<Rightarrow> ''createdAt'' | Some k \<Rightarrow> k)
               (lv_sortOrder lq)
               (filter (where_matches db (build_where lq)) (registrations db)) = None"
    proof -
      have "get_registrations ev db (with_payload req lq) = (Inl prisma_validation_error, db)"
        using get_registrations_refused [of ev "with_payload req lq" db] no
        unfolding payload by blast
      then show ?thesis
        unfolding route passed using asyncHandler_validation_error [of ev db] by simp
    qed
    show ?thesis using pl listed refusal by blast
  qed
  have refused: "\<exists>r. registrations_list_route ev db req0 = (Replied r, db) \<and> res_status r = 400"
    if bad: "(lq_page (req_payload req) = Present n \<and> n < 1)
            \<or> (lq_limit (req_payload req) = Present n \<and> (n < 1 \<or> 100 < n))"
    for n
  proof -
    obtain errs where "paginationSearchValidation (req_payload req) = Inl errs"
      using validation_out_of_range [OF bad] by blast
    then show ?thesis unfolding route by (simp add: validateQuery_def)
  qed
  show ?thesis
    using defaults validation_bounds refused by blast
qed

theorem pagination_defaults_witness:
  "(\<exists>res. registrations_list_route sample_env sample_db (sample_raw_query Absent Absent Absent)
            = (Succeeded 200 res, sample_db)
         \<and> map rv_registration (lr_registrations res)
             = [sample_registration 1 ''REJECTED'', sample_registration 2 ''PENDING'']
         \<and> pg_page (lr_pagination res) = 1 \<and> pg_limit (lr_pagination res) = 10
         \<and> pg_total (lr_pagination res) = 2
         \<and> pg_pages (lr_pagination res) = Some 1)
   \<and> (\<exists>r. registrations_list_route sample_env sample_db
              (sample_raw_query Absent Absent (Present ''shoeSize''))
            = (Replied r, sample_db) \<and> res_status r = 400
          \<and> jfield (res_body r) ''code'' = Some (JStr ''VALIDATION_ERROR''))
   \<and> (\<exists>r. registrations_list_route sample_env sample_db
              (sample_raw_query Absent (Present 101) Absent)
            = (Replied r, sample_db) \<and> res_status r = 400)
   \<and> (\<exists>r. registrations_list_route sample_env sample_db
              (sample_raw_query (Present 0) Absent Absent)
            = (Replied r, sample_db) \<and> res_status r = 400)"
proof -
  have auth: "authenticateUser sample_env sample_db (sample_raw_query p l k)
                = Next ((sample_raw_query p l k)\<lparr>req_user := Some sample_identity\<rparr>)"
       "requireAdmin ((sample_raw_query p l k)\<lparr>req_user := Some sample_identity\<rparr>)
                = Next ((sample_raw_query p l k)\<lparr>req_user := Some sample_identity\<rparr>)" for p l k
    unfolding sample_raw_query_def by (rule sample_authenticated)+
  note inst = pagination_defaults [OF auth]
  have valid: "paginationSearchValidation (req_payload (sample_raw_query Absent Absent k))
                 = Inr (list_value (req_payload (sample_raw_query Absent Absent k)))"
    if "k = Absent \<or> k = Present ''shoeSize''" for k
    using that
    by (auto simp: paginationSearchValidation_def paginationValidation_errors_def
          searchValidation_errors_def joi_number_def joi_string_def joi_date_def
          unknown_keys_def plain_string_def sample_raw_query_def sample_request_def)
  have pay: "req_payload ((sample_raw_query p l k)\<lparr>req_user := Some sample_identity\<rparr>)
               = req_payload (sample_raw_query p l k)" for p l k
    by simp
  have absent: "lq_page (req_payload (sample_raw_query Absent Absent k)) = Absent"
      "lq_limit (req_payload (sample_raw_query Absent Absent k)) = Absent" for k
    by (simp_all add: sample_raw_query_def sample_request_def)
  have matching: "filter (where_matches sample_db
                    (build_where (list_value (req_payload (sample_raw_query Absent Absent k)))))
                  (registrations sample_db)
              = [sample_registration 1 ''REJECTED'', sample_registration 2 ''PENDING'']" for k
    by (simp add: where_matches_def build_where_def list_value_def truthy_def
          sample_raw_query_def sample_request_def sample_db_def)
  have accepted: "where_accepted sample_env
                    (build_where (list_value (req_payload (sample_raw_query Absent Absent k))))"
    for k
    by (simp add: where_accepted_def build_where_def list_value_def truthy_def
          sample_raw_query_def sample_request_def)
  have fk: "\<forall>r \<in> set [sample_registration 1 ''REJECTED'', sample_registration 2 ''PENDING''].
              \<exists>v. include_relations sample_db r = Inr v"
    by (simp add: sample_include)
  have ceil: "\<lceil>(2::rat) / 10\<rceil> = 1"
    by (rule ceiling_unique) simp_all
  let ?lq = "list_value (req_payload (sample_raw_query Absent Absent Absent))"
  have ordered: "order_by sample_env (case lv_sortBy ?lq of None \<Rightarrow> ''createdAt'' | Some k \<Rightarrow> k)
                   (lv_sortOrder ?lq)
                   (filter (where_matches sample_db (build_where ?lq)) (registrations sample_db))
                 = Some [sample_registration 1 ''REJECTED'', sample_registration 2 ''PENDING'']"
    unfolding matching
    by (simp add: list_value_def sample_raw_query_def sample_request_def sample_env_def)
  have "\<exists>res. registrations_list_route sample_env sample_db (sample_raw_query Absent Absent Absent)
                   = (Succeeded 200 res, sample_db)
               \<and> map rv_registration (lr_registrations res)
                   = take 10 [sample_registration 1 ''REJECTED'', sample_registration 2 ''PENDING'']
               \<and> length (lr_registrations res) \<le> 10
               \<and> pg_page (lr_pagination res) = 1 \<and> pg_limit (lr_pagination res) = 10
               \<and> pg_total (lr_pagination res)
                   = length (filter (where_matches sample_db (build_where ?lq))
                               (registrations sample_db))
               \<and> pg_pages (lr_pagination res)
                   = Some \<lceil>of_nat (pg_total (lr_pagination res)) / (10::rat)\<rceil>"
    by (rule inst [of Absent Absent Absent, THEN conjunct1, rule_format, THEN conjunct2,
                   THEN conjunct2, THEN conjunct1, rule_format])
       (simp_all add: valid accepted ordered fk,
        simp_all add: sample_raw_query_def sample_request_def)
  then obtain res where res:
      "registrations_list_route sample_env sample_db (sample_raw_query Absent Absent Absent)
         = (Succeeded 200 res, sample_db)"
      "map rv_registration (lr_registrations res)
         = take 10 [sample_registration 1 ''REJECTED'', sample_registration 2 ''PENDING'']"
      "pg_page (lr_pagination res) = 1" "pg_limit (lr_pagination res) = 10"
      "pg_total (lr_pagination res)
         = length (filter (where_matches sample_db (build_where ?lq)) (registrations sample_db))"
      "pg_pages (lr_pagination res) = Some \<lceil>of_nat (pg_total (lr_pagination res)) / (10::rat)\<rceil>"
    by (elim exE conjE)
  have a: "\<exists>res. registrations_list_route sample_env sample_db (sample_raw_query Absent Absent Absent)
            = (Succeeded 200 res, sample_db)
         \<and> map rv_registration (lr_registrations res)
             = [sample_registration 1 ''REJECTED'', sample_registration 2 ''PENDING'']
         \<and> pg_page (lr_pagination res) = 1 \<and> pg_limit (lr_pagination res) = 10
         \<and> pg_total (lr_pagination res) = 2
         \<and> pg_pages (lr_pagination res) = Some 1"
    using res ceil unfolding matching by (intro exI [of _ res]) simp
  let ?lqs = "list_value (req_payload (sample_raw_query Absent Absent (Present ''shoeSize'')))"
  have refusing: "order_by sample_env (case lv_sortBy ?lqs of None \<Rightarrow> ''createdAt'' | Some k \<Rightarrow> k)
                   (lv_sortOrder ?lqs)
                   (filter (where_matches sample_db (build_where ?lqs)) (registrations sample_db))
                 = None"
    by (simp add: list_value_def sample_raw_query_def sample_request_def sample_env_def)
  have s: "\<exists>r. registrations_list_route sample_env sample_db
              (sample_raw_query Absent Absent (Present ''shoeSize''))
            = (Replied r, sample_db) \<and> res_status r = 400
          \<and> jfield (res_body r) ''code'' = Some (JStr ''VALIDATION_ERROR'')"
  proof (rule inst [of Absent Absent "Present ''shoeSize''", unfolded pay, THEN conjunct1,
                    rule_format, of ?lqs, THEN conjunct2, THEN conjunct2, THEN conjunct2,
                    rule_format])
    show "lq_page (req_payload (sample_raw_query Absent Absent (Present ''shoeSize''))) = Absent
        \<and> lq_limit (req_payload (sample_raw_query Absent Absent (Present ''shoeSize''))) = Absent
        \<and> paginationSearchValidation
            (req_payload (sample_raw_query Absent Absent (Present ''shoeSize''))) = Inr ?lqs"
      using absent [of "Present ''shoeSize''"] valid [of "Present ''shoeSize''"] by simp
    show "\<not> where_accepted sample_env (build_where ?lqs)
        \<or> order_by sample_env (case lv_sortBy ?lqs of None \<Rightarrow> ''createdAt'' | Some k \<Rightarrow> k)
            (lv_sortOrder ?lqs)
            (filter (where_matches sample_db (build_where ?lqs)) (registrations sample_db))
          = None"
      using refusing by (rule disjI2)
  qed
  have b: "\<exists>r. registrations_list_route sample_env sample_db
              (sample_raw_query Absent (Present 101) Absent)
            = (Replied r, sample_db) \<and> res_status r = 400"
    by (rule inst [of Absent "Present 101" Absent, THEN conjunct2, THEN conjunct2, rule_format,
                   of 101])
       (simp add: sample_raw_query_def sample_request_def)
  have c: "\<exists>r. registrations_list_route sample_env sample_db
              (sample_raw_query (Present 0) Absent Absent)
            = (Replied r, sample_db) \<and> res_status r = 400"
    by (rule inst [of "Present 0" Absent Absent, THEN conjunct2, THEN conjunct2, rule_format,
                   of 0])
       (simp add: sample_raw_query_def sample_request_def)
  show ?thesis using a s b c by blast
qed

text \<open>
  The claim as the specification states it fails for a list request without \<open>page\<close> and
  \<open>limit\<close> whose \<open>sortBy\<close> is not a column of the registration model: the request passes
  validation, the ORM refuses the query, and the route answers 400 instead of a page of
  items.
\<close>

theorem unknown_sort_key_refused:
  "registrations_list_route sample_env sample_db
     (sample_raw_query Absent Absent (Present ''shoeSize''))
   = (Replied (errorHandler (Some ''production'') prisma_validation_error), sample_db)
   \<and> res_status (errorHandler (Some ''production'') prisma_validation_error) = 400"
proof -
  let ?req = "sample_raw_query Absent Absent (Present ''shoeSize'')"
  let ?lq = "list_value (req_payload ?req)"
  have route: "registrations_list_route sample_env sample_db ?req
           = (case validateQuery paginationSearchValidation
                     (?req\<lparr>req_user := Some sample_identity\<rparr>) of
                Respond r \<Rightarrow> (Replied r, sample_db)
              | Next req3 \<Rightarrow> asyncHandler sample_env (get_registrations sample_env sample_db req3))"
    unfolding sample_raw_query_def
    by (rule list_route_after_auth) (rule sample_authenticated)+
  have valid: "paginationSearchValidation (req_payload ?req) = Inr ?lq"
    by (simp add: paginationSearchValidation_def paginationValidation_errors_def
          searchValidation_errors_def joi_number_def joi_string_def joi_date_def
          unknown_keys_def plain_string_def sample_raw_query_def sample_request_def)
  have passed: "validateQuery paginationSearchValidation (?req\<lparr>req_user := Some sample_identity\<rparr>)
                  = Next (with_payload (?req\<lparr>req_user := Some sample_identity\<rparr>) ?lq)"
    using valid by (simp add: validateQuery_def)
  have refusing: "order_by sample_env (case lv_sortBy ?lq of None \<Rightarrow> ''createdAt'' | Some k \<Rightarrow> k)
                   (lv_sortOrder ?lq)
                   (filter (where_matches sample_db (build_where ?lq)) (registrations sample_db))
                 = None"
    by (simp add: list_value_def sample_raw_query_def sample_request_def sample_env_def)
  have "get_registrations sample_env sample_db
          (with_payload (?req\<lparr>req_user := Some sample_identity\<rparr>) ?lq)
        = (Inl prisma_validation_error, sample_db)"
    by (rule get_registrations_refused) (simp add: with_payload_def refusing)
  then have "registrations_list_route sample_env sample_db ?req
               = asyncHandler sample_env (Inl prisma_validation_error, sample_db)"
    unfolding route passed by simp
  then show ?thesis
    by (simp add: asyncHandler_def errorHandler_middleware_def res_status_json_def
          errorHandler_def resolve_error_def prisma_validation_error_def Let_def sample_env_def)
qed

end
